theory Spec2Isabelle
  imports Complex_Main "HOL-Library.Word"
begin

section \<open>colorblend: gradient progress and hue interpolation\<close>

text \<open>
  The repository holds three versions of the program: the cobra version (functions
  \<open>blendHCLWithDirection\<close>, \<open>getGradientColor\<close>, \<open>rootCmd.Run\<close>), the flag
  version (\<open>getGradientColor\<close> with a colorspace, \<open>main\<close>) and the first version
  with a hand-written hex parser (\<open>hexToRGB\<close>, \<open>getGradientColor\<close>). Definitions
  of the flag version carry the suffix \<open>_flag\<close>, those of the first version the
  suffix \<open>_rgb\<close>.

  Go's \<open>float64\<close> is modelled by \<open>real\<close>: arithmetic is exact, rounding error of
  the IEEE operations is not part of the model. Go's \<open>int\<close> is modelled by \<open>int\<close>.
\<close>

subsection \<open>The two functions of package math that the program calls\<close>

text \<open>\<open>math.Mod(x, y)\<close>: the remainder of \<open>x / y\<close> with the sign of \<open>x\<close> and
  magnitude below \<open>y\<close>; the quotient is truncated towards zero.\<close>

definition trunc :: "real \<Rightarrow> int" where
  "trunc x = (if 0 \<le> x then \<lfloor>x\<rfloor> else \<lceil>x\<rceil>)"

definition math_Mod :: "real \<Rightarrow> real \<Rightarrow> real" where
  "math_Mod x y = x - y * of_int (trunc (x / y))"

text \<open>\<open>math.Round(x)\<close>: the nearest integer, halves away from zero.\<close>

definition math_Round :: "real \<Rightarrow> real" where
  "math_Round x = (if x < 0 then - of_int \<lfloor>- x + 1 / 2\<rfloor> else of_int \<lfloor>x + 1 / 2\<rfloor>)"

subsection \<open>Progress of a gradient unit\<close>

text \<open>The cobra version: \<open>progress := 0.0; if totalGradientUnits > 1 { progress =
  float64(position) / float64(totalGradientUnits-1) }\<close>.\<close>

definition rawProgress :: "int \<Rightarrow> int \<Rightarrow> real" where
  "rawProgress position totalUnits =
     (if totalUnits > 1 then of_int position / of_int (totalUnits - 1) else 0)"

text \<open>The flag version and the first version: \<open>if totalGradientUnits <= 1 { progress = 0.0 }
  else { progress = float64(position) / float64(totalGradientUnits-1) }\<close>.\<close>

definition rawProgress_flag :: "int \<Rightarrow> int \<Rightarrow> real" where
  "rawProgress_flag position totalUnits =
     (if totalUnits \<le> 1 then 0 else of_int position / of_int (totalUnits - 1))"

text \<open>\<open>if invert { progress = 1.0 - progress }\<close>\<close>

definition applyInvert :: "bool \<Rightarrow> real \<Rightarrow> real" where
  "applyInvert invert progress = (if invert then 1 - progress else progress)"

text \<open>\<open>if steps > 0 { progress = math.Round(progress*float64(steps)) / float64(steps) }\<close>\<close>

definition applySteps :: "int \<Rightarrow> real \<Rightarrow> real" where
  "applySteps steps progress =
     (if steps > 0 then math_Round (progress * of_int steps) / of_int steps else progress)"

definition progressFor :: "int \<Rightarrow> int \<Rightarrow> bool \<Rightarrow> int \<Rightarrow> real" where
  "progressFor position totalUnits invert steps =
     applySteps steps (applyInvert invert (rawProgress position totalUnits))"

definition progressFor_flag :: "int \<Rightarrow> int \<Rightarrow> bool \<Rightarrow> int \<Rightarrow> real" where
  "progressFor_flag position totalUnits invert steps =
     applySteps steps (applyInvert invert (rawProgress_flag position totalUnits))"

subsection \<open>Hue delta of \<open>blendHCLWithDirection\<close>\<close>

text \<open>\<open>h = math.Mod(h+360, 360)\<close>\<close>

definition normHue :: "real \<Rightarrow> real" where
  "normHue h = math_Mod (h + 360) 360"

text \<open>The \<open>switch hueDirection\<close> of \<open>blendHCLWithDirection\<close>, on the two normalized
  hues. The default case repeats the case of \<open>shortest\<close>.\<close>

definition foldShortest :: "real \<Rightarrow> real" where
  "foldShortest d = (if d > 180 then d - 360 else if d < - 180 then d + 360 else d)"

definition deltaH :: "string \<Rightarrow> real \<Rightarrow> real \<Rightarrow> real" where
  "deltaH hueDirection h1 h2 =
     (if hueDirection \<in> {''shortest'', ''short'', ''sh''} then foldShortest (h2 - h1)
      else if hueDirection \<in> {''clockwise'', ''cw''} then math_Mod (h2 - h1 + 360) 360
      else if hueDirection \<in> {''counter-clockwise'', ''counterclockwise'', ''ccw''}
        then - math_Mod (h1 - h2 + 360) 360
      else foldShortest (h2 - h1))"

subsection \<open>The color library\<close>

text \<open>
  The cobra and flag versions compute colors with the library go-colorful, which is not
  part of the repository. Its functions are parameters of the model: a record with one
  field for each library function that the program calls, over an opaque type \<open>'c\<close>
  of colors. \<open>colorful.Hex\<close> returns a color or an error (\<open>None\<close>); \<open>RGB255\<close>
  returns three values of Go type \<open>uint8\<close>.
\<close>

record 'c colorful =
  Hex :: "string \<Rightarrow> 'c option"
  Color_Hcl :: "'c \<Rightarrow> real \<times> real \<times> real"
  Hcl :: "real \<Rightarrow> real \<Rightarrow> real \<Rightarrow> 'c"
  Clamped :: "'c \<Rightarrow> 'c"
  RGB255 :: "'c \<Rightarrow> 8 word \<times> 8 word \<times> 8 word"
  BlendRgb :: "'c \<Rightarrow> 'c \<Rightarrow> real \<Rightarrow> 'c"
  BlendHcl :: "'c \<Rightarrow> 'c \<Rightarrow> real \<Rightarrow> 'c"
  BlendLab :: "'c \<Rightarrow> 'c \<Rightarrow> real \<Rightarrow> 'c"

subsection \<open>Formatting\<close>

text \<open>The verb \<open>%d\<close> of package fmt: decimal digits, a minus sign for a negative value.\<close>

definition digit_char :: "nat \<Rightarrow> char" where
  "digit_char d = char_of (48 + d)"

fun decimal :: "nat \<Rightarrow> string" where
  "decimal n = (if n < 10 then [digit_char n] else decimal (n div 10) @ [digit_char (n mod 10)])"

declare decimal.simps [simp del]

definition fmt_d :: "int \<Rightarrow> string" where
  "fmt_d i = (if i < 0 then CHR ''-'' # decimal (nat (- i)) else decimal (nat i))"

text \<open>\<open>fmt.Sprintf("38;2;%d;%d;%dm", r, g, b)\<close>\<close>

definition colorPart_of :: "int \<Rightarrow> int \<Rightarrow> int \<Rightarrow> string" where
  "colorPart_of r g b = ''38;2;'' @ fmt_d r @ '';'' @ fmt_d g @ '';'' @ fmt_d b @ ''m''"

subsection \<open>The cobra version: \<open>blendHCLWithDirection\<close> and \<open>getGradientColor\<close>\<close>

definition blendHCLWithDirection ::
  "'c colorful \<Rightarrow> 'c \<Rightarrow> 'c \<Rightarrow> real \<Rightarrow> string \<Rightarrow> 'c" where
  "blendHCLWithDirection L c1 c2 t hueDirection =
     (case Color_Hcl L c1 of (h1, c1Chroma, l1) \<Rightarrow>
      case Color_Hcl L c2 of (h2, c2Chroma, l2) \<Rightarrow>
        let h1 = normHue h1;
            h2 = normHue h2;
            dH = deltaH hueDirection h1 h2;
            h = math_Mod (h1 + t * dH + 360) 360;
            c = c1Chroma + t * (c2Chroma - c1Chroma);
            l = l1 + t * (l2 - l1)
        in Hcl L h c l)"

datatype color_error = InvalidStartHex | InvalidEndHex | UnsupportedColorspace

definition getGradientColor ::
  "'c colorful \<Rightarrow> real \<Rightarrow> string \<Rightarrow> string \<Rightarrow> string \<Rightarrow> color_error + string" where
  "getGradientColor L progress startHex endHex hueDirection =
     (case Hex L startHex of
        None \<Rightarrow> Inl InvalidStartHex
      | Some startColor \<Rightarrow>
          (case Hex L endHex of
             None \<Rightarrow> Inl InvalidEndHex
           | Some endColor \<Rightarrow>
               let interpolated = blendHCLWithDirection L startColor endColor progress hueDirection
               in (case RGB255 L (Clamped L interpolated) of (r, g, b) \<Rightarrow>
                     Inr (colorPart_of (uint r) (uint g) (uint b)))))"

text \<open>\<open>getGradientColor\<close> of the flag version: the library blends in the chosen
  color space; the hue direction is not used.\<close>

definition getGradientColor_flag ::
  "'c colorful \<Rightarrow> real \<Rightarrow> string \<Rightarrow> string \<Rightarrow> string \<Rightarrow> string \<Rightarrow> color_error + string" where
  "getGradientColor_flag L progress startHex endHex colorspace hueDirection =
     (case Hex L startHex of
        None \<Rightarrow> Inl InvalidStartHex
      | Some startColor \<Rightarrow>
          (case Hex L endHex of
             None \<Rightarrow> Inl InvalidEndHex
           | Some endColor \<Rightarrow>
               (case (if colorspace = ''rgb'' then Some (BlendRgb L startColor endColor progress)
                      else if colorspace = ''hcl'' then Some (BlendHcl L startColor endColor progress)
                      else if colorspace = ''lab'' then Some (BlendLab L startColor endColor progress)
                      else None) of
                  None \<Rightarrow> Inl UnsupportedColorspace
                | Some interpolatedColor \<Rightarrow>
                    (case RGB255 L (Clamped L interpolatedColor) of (r, g, b) \<Rightarrow>
                       Inr (colorPart_of (uint r) (uint g) (uint b))))))"

subsection \<open>The cobra version: \<open>rootCmd.Run\<close>\<close>

text \<open>
  A rune is a Unicode code point. Standard input is given as the lines that
  \<open>reader.ReadLine\<close> returned, decoded to runes, and whether the read after the last
  of them failed with an error other than \<open>io.EOF\<close>. Standard output is the sequence
  of code points written. A run ends with the text written to standard output and
  either a normal return (exit code 0) or the error reported before \<open>os.Exit(1)\<close>.
  The parsing of the command line by cobra and the hook for \<open>--help\<close> and
  \<open>--version\<close>, which run before \<open>Run\<close>, are not part of the model: \<open>Run\<close>
  starts from the values of the flags and the positional arguments.
\<close>

type_synonym rune = nat

definition runes :: "string \<Rightarrow> rune list" where
  "runes s = map of_char s"

definition ESC :: char where
  "ESC = CHR 0x1B"

definition NL :: char where
  "NL = CHR 0x0A"

text \<open>\<open>"\x1b[0m\n"\<close>\<close>

definition RESET_NL :: "rune list" where
  "RESET_NL = runes (ESC # ''[0m'' @ [NL])"

record config =
  startColor :: string
  endColor :: string
  gradientDirection :: string
  hueDirection :: string
  steps :: int
  invert :: bool

record stdin =
  lines_read :: "rune list list"
  read_error :: bool

datatype error =
    InvalidStartColor | InvalidEndColor | InvalidGradientDirection | InvalidColorspace
  | InvalidHueDirection | NegativeSteps | UnexpectedArguments | ReadError
  | GradientColorErrorEmptyLine color_error | GradientColorError color_error

record outcome =
  stdout :: "rune list"
  failure :: "error option"

definition exit_code :: "outcome \<Rightarrow> int" where
  "exit_code r = (case failure r of None \<Rightarrow> 0 | Some e \<Rightarrow> 1)"

definition exit_with :: "rune list \<Rightarrow> error \<Rightarrow> outcome" where
  "exit_with out e = \<lparr>stdout = out, failure = Some e\<rparr>"

text \<open>The loop over the characters of one line: \<open>for _, char := range line\<close>. It
  threads \<open>charCountHorizontal\<close> and the output written so far, and stops at the first
  error of \<open>getGradientColor\<close>.\<close>

fun chars_loop ::
  "'c colorful \<Rightarrow> config \<Rightarrow> int \<Rightarrow> int \<Rightarrow> int \<Rightarrow> rune list \<Rightarrow> rune list
     \<Rightarrow> rune list \<times> int \<times> color_error option" where
  "chars_loop L cfg totalGradientUnits lineIndex charCountHorizontal out [] =
     (out, charCountHorizontal, None)"
| "chars_loop L cfg totalGradientUnits lineIndex charCountHorizontal out (char # rest) =
     (let progress =
            (if gradientDirection cfg = ''horizontal''
             then rawProgress charCountHorizontal totalGradientUnits
             else rawProgress lineIndex totalGradientUnits);
          charCountHorizontal =
            (if gradientDirection cfg = ''horizontal''
             then charCountHorizontal + 1 else charCountHorizontal);
          progress = applyInvert (invert cfg) progress;
          progress = applySteps (steps cfg) progress
      in case getGradientColor L progress (startColor cfg) (endColor cfg) (hueDirection cfg) of
           Inl e \<Rightarrow> (out, charCountHorizontal, Some e)
         | Inr colorPart \<Rightarrow>
             chars_loop L cfg totalGradientUnits lineIndex charCountHorizontal
               (out @ runes (ESC # ''['') @ runes colorPart @ [char]) rest)"

text \<open>The loop over the lines: \<open>for lineIndex, line := range lines\<close>.\<close>

fun lines_loop ::
  "'c colorful \<Rightarrow> config \<Rightarrow> int \<Rightarrow> int \<Rightarrow> int \<Rightarrow> rune list \<Rightarrow> rune list list
     \<Rightarrow> rune list \<times> error option" where
  "lines_loop L cfg totalGradientUnits lineIndex charCountHorizontal out [] = (out, None)"
| "lines_loop L cfg totalGradientUnits lineIndex charCountHorizontal out (line # rest) =
     (if gradientDirection cfg = ''vertical'' \<and> length line = 0 \<and> totalGradientUnits > 1
      then
        (let progress = rawProgress lineIndex totalGradientUnits;
             progress = applyInvert (invert cfg) progress;
             progress = applySteps (steps cfg) progress
         in case getGradientColor L progress (startColor cfg) (endColor cfg) (hueDirection cfg) of
              Inl e \<Rightarrow> (out, Some (GradientColorErrorEmptyLine e))
            | Inr colorPart \<Rightarrow>
                lines_loop L cfg totalGradientUnits (lineIndex + 1) charCountHorizontal
                  (out @ runes (ESC # ''['') @ runes colorPart @ runes [NL]) rest)
      else
        (case chars_loop L cfg totalGradientUnits lineIndex charCountHorizontal out line of
           (out, charCountHorizontal, Some e) \<Rightarrow> (out, Some (GradientColorError e))
         | (out, charCountHorizontal, None) \<Rightarrow>
             let out = (if \<not> (gradientDirection cfg = ''vertical'' \<and> length line = 0
                                \<and> totalGradientUnits > 1)
                        then out @ runes [NL] else out)
             in lines_loop L cfg totalGradientUnits (lineIndex + 1) charCountHorizontal out rest))"

text \<open>\<open>for _, line := range lines { totalGradientUnits += len(line) }\<close>\<close>

definition count_chars :: "rune list list \<Rightarrow> int" where
  "count_chars lines = foldl (\<lambda>total line. total + int (length line)) 0 lines"

text \<open>\<open>for range lines { fmt.Printf("\x1b[0m\n") }\<close>\<close>

definition reset_each :: "rune list list \<Rightarrow> rune list" where
  "reset_each lines = foldl (\<lambda>out line. out @ RESET_NL) [] lines"

definition Run :: "'c colorful \<Rightarrow> config \<Rightarrow> string list \<Rightarrow> stdin \<Rightarrow> outcome" where
  "Run L cfg args input =
     (if Hex L (startColor cfg) = None then exit_with [] InvalidStartColor
      else if Hex L (endColor cfg) = None then exit_with [] InvalidEndColor
      else if gradientDirection cfg \<noteq> ''horizontal'' \<and> gradientDirection cfg \<noteq> ''vertical''
        then exit_with [] InvalidGradientDirection
      else if steps cfg < 0 then exit_with [] NegativeSteps
      else if length args > 0 then exit_with [] UnexpectedArguments
      else if read_error input then exit_with [] ReadError
      else
        let lines = lines_read input in
        if length lines = 0 then \<lparr>stdout = RESET_NL, failure = None\<rparr>
        else if gradientDirection cfg = ''horizontal'' \<and> count_chars lines = 0
          then \<lparr>stdout = reset_each lines, failure = None\<rparr>
        else
          let totalGradientUnits =
                (if gradientDirection cfg = ''horizontal'' then count_chars lines
                 else int (length lines))
          in case lines_loop L cfg totalGradientUnits 0 0 [] lines of
               (out, Some e) \<Rightarrow> exit_with out e
             | (out, None) \<Rightarrow> \<lparr>stdout = out @ RESET_NL, failure = None\<rparr>)"

subsection \<open>The flag version: \<open>main\<close>\<close>

record config_flag = config +
  colorspace :: string
  showHelp :: bool
  showVersion :: bool

text \<open>
  The two calls of \<open>fmt.Printf\<close> in the loop of the flag version have one verb more
  than arguments: \<open>fmt.Printf("\x1b[%s%s%c", colorPart, char)\<close> and
  \<open>fmt.Printf("\x1b[%s%s\n", colorPart)\<close>. Package fmt writes \<open>%!s(int32=N)\<close>
  for the verb \<open>%s\<close> applied to the rune \<open>N\<close> and \<open>%!verb(MISSING)\<close> for a verb
  without an argument.
\<close>

definition bad_verb_s_rune :: "rune \<Rightarrow> string" where
  "bad_verb_s_rune char = ''%!s(int32='' @ decimal char @ '')''"

fun chars_loop_flag ::
  "'c colorful \<Rightarrow> config_flag \<Rightarrow> int \<Rightarrow> int \<Rightarrow> int \<Rightarrow> rune list \<Rightarrow> rune list
     \<Rightarrow> rune list \<times> int \<times> color_error option" where
  "chars_loop_flag L cfg totalGradientUnits lineIndex charCountHorizontal out [] =
     (out, charCountHorizontal, None)"
| "chars_loop_flag L cfg totalGradientUnits lineIndex charCountHorizontal out (char # rest) =
     (let progress =
            (if gradientDirection cfg = ''horizontal''
             then rawProgress_flag charCountHorizontal totalGradientUnits
             else rawProgress_flag lineIndex totalGradientUnits);
          charCountHorizontal =
            (if gradientDirection cfg = ''horizontal''
             then charCountHorizontal + 1 else charCountHorizontal);
          progress = applyInvert (invert cfg) progress;
          progress = applySteps (steps cfg) progress
      in case getGradientColor_flag L progress (startColor cfg) (endColor cfg) (colorspace cfg)
                (hueDirection cfg) of
           Inl e \<Rightarrow> (out, charCountHorizontal, Some e)
         | Inr colorPart \<Rightarrow>
             chars_loop_flag L cfg totalGradientUnits lineIndex charCountHorizontal
               (out @ runes (ESC # ''['') @ runes colorPart @ runes (bad_verb_s_rune char)
                    @ runes ''%!c(MISSING)'') rest)"

fun lines_loop_flag ::
  "'c colorful \<Rightarrow> config_flag \<Rightarrow> int \<Rightarrow> int \<Rightarrow> int \<Rightarrow> rune list \<Rightarrow> rune list list
     \<Rightarrow> rune list \<times> error option" where
  "lines_loop_flag L cfg totalGradientUnits lineIndex charCountHorizontal out [] = (out, None)"
| "lines_loop_flag L cfg totalGradientUnits lineIndex charCountHorizontal out (line # rest) =
     (if gradientDirection cfg = ''vertical'' \<and> length line = 0 \<and> totalGradientUnits > 1
      then
        (let progress = rawProgress_flag lineIndex totalGradientUnits;
             progress = applyInvert (invert cfg) progress;
             progress = applySteps (steps cfg) progress
         in case getGradientColor_flag L progress (startColor cfg) (endColor cfg) (colorspace cfg)
                   (hueDirection cfg) of
              Inl e \<Rightarrow> (out, Some (GradientColorErrorEmptyLine e))
            | Inr colorPart \<Rightarrow>
                lines_loop_flag L cfg totalGradientUnits (lineIndex + 1) charCountHorizontal
                  (out @ runes (ESC # ''['') @ runes colorPart @ runes ''%!s(MISSING)''
                       @ runes [NL]) rest)
      else
        (case chars_loop_flag L cfg totalGradientUnits lineIndex charCountHorizontal out line of
           (out, charCountHorizontal, Some e) \<Rightarrow> (out, Some (GradientColorError e))
         | (out, charCountHorizontal, None) \<Rightarrow>
             let out = (if \<not> (gradientDirection cfg = ''vertical'' \<and> length line = 0
                                \<and> totalGradientUnits > 1)
                        then out @ runes [NL] else out)
             in lines_loop_flag L cfg totalGradientUnits (lineIndex + 1) charCountHorizontal out
                  rest))"

definition main_flag :: "'c colorful \<Rightarrow> config_flag \<Rightarrow> string list \<Rightarrow> stdin \<Rightarrow> outcome" where
  "main_flag L cfg args input =
     (if showVersion cfg then \<lparr>stdout = runes (''colorblend v1.0.0'' @ [NL]), failure = None\<rparr>
      else if showHelp cfg then \<lparr>stdout = [], failure = None\<rparr>
      else if Hex L (startColor cfg) = None then exit_with [] InvalidStartColor
      else if Hex L (endColor cfg) = None then exit_with [] InvalidEndColor
      else if gradientDirection cfg \<noteq> ''horizontal'' \<and> gradientDirection cfg \<noteq> ''vertical''
        then exit_with [] InvalidGradientDirection
      else if colorspace cfg \<noteq> ''rgb'' \<and> colorspace cfg \<noteq> ''hcl'' \<and> colorspace cfg \<noteq> ''lab''
        then exit_with [] InvalidColorspace
      else if (colorspace cfg = ''hcl'' \<or> colorspace cfg = ''lab'')
            \<and> (hueDirection cfg \<noteq> ''shortest'' \<and> hueDirection cfg \<noteq> ''clockwise''
                 \<and> hueDirection cfg \<noteq> ''counter-clockwise'')
        then exit_with [] InvalidHueDirection
      else if steps cfg < 0 then exit_with [] NegativeSteps
      else if length args > 0 then exit_with [] UnexpectedArguments
      else if read_error input then exit_with [] ReadError
      else
        let lines = lines_read input in
        if length lines = 0 then \<lparr>stdout = RESET_NL, failure = None\<rparr>
        else if gradientDirection cfg = ''horizontal'' \<and> count_chars lines = 0
          then \<lparr>stdout = reset_each lines, failure = None\<rparr>
        else
          let totalGradientUnits =
                (if gradientDirection cfg = ''horizontal'' then count_chars lines
                 else int (length lines))
          in case lines_loop_flag L cfg totalGradientUnits 0 0 [] lines of
               (out, Some e) \<Rightarrow> exit_with out e
             | (out, None) \<Rightarrow> \<lparr>stdout = out @ RESET_NL, failure = None\<rparr>)"

subsection \<open>The first version: \<open>hexToRGB\<close> and \<open>getGradientColor\<close>\<close>

text \<open>
  \<open>strconv.ParseInt(s, 16, 0)\<close>: an optional sign \<open>+\<close> or \<open>-\<close>, then one or more
  digits \<open>0-9\<close>, \<open>a-f\<close>, \<open>A-F\<close>; an error (\<open>None\<close>) for any other string and for a
  value outside the 64-bit range of \<open>int\<close>.
\<close>

definition hexval :: "char \<Rightarrow> nat option" where
  "hexval c =
     (let n = (of_char c :: nat) in
      if 48 \<le> n \<and> n \<le> 57 then Some (n - 48)
      else if 97 \<le> n \<and> n \<le> 102 then Some (n - 87)
      else if 65 \<le> n \<and> n \<le> 70 then Some (n - 55)
      else None)"

fun ParseUint16 :: "nat \<Rightarrow> string \<Rightarrow> nat option" where
  "ParseUint16 n [] = Some n"
| "ParseUint16 n (c # s) =
     (case hexval c of None \<Rightarrow> None | Some d \<Rightarrow> ParseUint16 (n * 16 + d) s)"

definition ParseInt16 :: "string \<Rightarrow> int option" where
  "ParseInt16 s =
     (if s = [] then None
      else
        let neg = (hd s = CHR ''-'');
            s = (if hd s = CHR ''+'' \<or> hd s = CHR ''-'' then tl s else s)
        in if s = [] then None
           else (case ParseUint16 0 s of
                   None \<Rightarrow> None
                 | Some un \<Rightarrow>
                     let n = (if neg then - int un else int un)
                     in if - (2 ^ 63) \<le> n \<and> n < 2 ^ 63 then Some n else None))"

text \<open>\<open>hexToRGB\<close> takes the three byte ranges \<open>hexColor[1:3]\<close>, \<open>hexColor[3:5]\<close> and
  \<open>hexColor[5:7]\<close> of a string of seven bytes that starts with \<open>#\<close>. As written the
  function does not compile: \<open>r, err = strconv.ParseInt(...)\<close> assigns the \<open>int64\<close> result
  of \<open>ParseInt\<close> to the result \<open>r\<close> that the signature declares \<open>int\<close>, and likewise for
  \<open>g\<close> and \<open>b\<close>. The last line, \<open>return int(r), int(g), int(b), nil\<close>, has the conversion
  that the assignments lack; the model reads each assignment with that conversion, which
  keeps the value where \<open>int\<close> has 64 bits. Every statement about the first version is a
  statement about the function read this way.\<close>

datatype hex_error = InvalidHexFormat | InvalidRed | InvalidGreen | InvalidBlue

definition hexToRGB :: "string \<Rightarrow> hex_error + (int \<times> int \<times> int)" where
  "hexToRGB hexColor =
     (if length hexColor \<noteq> 7 \<or> hexColor ! 0 \<noteq> CHR ''#'' then Inl InvalidHexFormat
      else case ParseInt16 (take 2 (drop 1 hexColor)) of
             None \<Rightarrow> Inl InvalidRed
           | Some r \<Rightarrow>
               (case ParseInt16 (take 2 (drop 3 hexColor)) of
                  None \<Rightarrow> Inl InvalidGreen
                | Some g \<Rightarrow>
                    (case ParseInt16 (take 2 (drop 5 hexColor)) of
                       None \<Rightarrow> Inl InvalidBlue
                     | Some b \<Rightarrow> Inr (r, g, b))))"



subsection \<open>An executable instance of the color library\<close>

text \<open>
  The properties of the runs below hold for every library. To evaluate runs on concrete
  inputs the record is instantiated here: a color is its three sRGB channels in
  \<open>[0,1]\<close>, \<open>Hex\<close> reads them with \<open>hexToRGB\<close>, \<open>Clamped\<close> bounds each channel to
  \<open>[0,1]\<close>, \<open>RGB255\<close> is \<open>uint8(channel * 255 + 0.5)\<close>, and the three blends are linear.
  In place of the perceptual conversion to hue, chroma and luminance stands the linear map
  that sends the red channel to a hue in \<open>[0,300]\<close>, and its inverse. This instance is
  not go-colorful and computes other colors than the library does: its conversion to hue,
  chroma and luminance and back is exact, and its blends in HCL and L*a*b* are the blend
  in RGB. It only shows that the properties of the runs have instances. What the library
  itself computes is written out in the section on the functions of go-colorful, and no
  property of the colors is drawn from the instance here.
\<close>

definition clamp01 :: "real \<Rightarrow> real" where
  "clamp01 v = max 0 (min v 1)"

definition to_uint8 :: "real \<Rightarrow> 8 word" where
  "to_uint8 x = word_of_int (trunc x)"

definition linear_blend :: "real \<times> real \<times> real \<Rightarrow> real \<times> real \<times> real \<Rightarrow> real \<Rightarrow> real \<times> real \<times> real" where
  "linear_blend c1 c2 t =
     (case c1 of (r1, g1, b1) \<Rightarrow> case c2 of (r2, g2, b2) \<Rightarrow>
        (r1 + t * (r2 - r1), g1 + t * (g2 - g1), b1 + t * (b2 - b1)))"

definition ref_colorful :: "(real \<times> real \<times> real) colorful" where
  "ref_colorful =
     \<lparr> Hex = (\<lambda>s. case hexToRGB s of
                   Inl err \<Rightarrow> None
                 | Inr (r, g, b) \<Rightarrow> Some (of_int r / 255, of_int g / 255, of_int b / 255)),
       Color_Hcl = (\<lambda>(r, g, b). (300 * r, g, b)),
       Hcl = (\<lambda>h c l. (h / 300, c, l)),
       Clamped = (\<lambda>(r, g, b). (clamp01 r, clamp01 g, clamp01 b)),
       RGB255 = (\<lambda>(r, g, b). (to_uint8 (r * 255 + 1 / 2), to_uint8 (g * 255 + 1 / 2),
                                 to_uint8 (b * 255 + 1 / 2))),
       BlendRgb = linear_blend,
       BlendHcl = linear_blend,
       BlendLab = linear_blend \<rparr>"

text \<open>The default flag values of the cobra version.\<close>

definition default_config :: config where
  "default_config =
     \<lparr> startColor = ''#FF00FF'', endColor = ''#00FFFF'', gradientDirection = ''horizontal'',
       hueDirection = ''shortest'', steps = 0, invert = False \<rparr>"

text \<open>The default flag values of the flag version.\<close>

definition default_config_flag :: config_flag where
  "default_config_flag =
     \<lparr> startColor = ''#FF00FF'', endColor = ''#00FFFF'', gradientDirection = ''horizontal'',
       hueDirection = ''shortest'', steps = 0, invert = False,
       colorspace = ''rgb'', showHelp = False, showVersion = False \<rparr>"

subsection \<open>Colors and configurations that the properties are about\<close>

text \<open>
  A hex color in the sense of the specification: \<open>#\<close> and exactly six hex digits.
\<close>

definition is_hex_color :: "string \<Rightarrow> bool" where
  "is_hex_color s \<longleftrightarrow> length s = 7 \<and> s ! 0 = CHR ''#'' \<and> list_all (\<lambda>c. hexval c \<noteq> None) (tl s)"

text \<open>The configurations that pass the checks of \<open>rootCmd.Run\<close>.\<close>

definition valid_config :: "'c colorful \<Rightarrow> config \<Rightarrow> bool" where
  "valid_config L cfg \<longleftrightarrow>
     Hex L (startColor cfg) \<noteq> None \<and> Hex L (endColor cfg) \<noteq> None
   \<and> (gradientDirection cfg = ''horizontal'' \<or> gradientDirection cfg = ''vertical'')
   \<and> 0 \<le> steps cfg"

text \<open>The configurations that pass the checks of \<open>main\<close> of the flag version.\<close>

definition valid_config_flag :: "'c colorful \<Rightarrow> config_flag \<Rightarrow> bool" where
  "valid_config_flag L cfg \<longleftrightarrow>
     \<not> showVersion cfg \<and> \<not> showHelp cfg
   \<and> Hex L (startColor cfg) \<noteq> None \<and> Hex L (endColor cfg) \<noteq> None
   \<and> (gradientDirection cfg = ''horizontal'' \<or> gradientDirection cfg = ''vertical'')
   \<and> (colorspace cfg = ''rgb''
        \<or> (colorspace cfg = ''hcl'' \<or> colorspace cfg = ''lab'')
           \<and> (hueDirection cfg = ''shortest'' \<or> hueDirection cfg = ''clockwise''
                \<or> hueDirection cfg = ''counter-clockwise''))
   \<and> 0 \<le> steps cfg"

subsection \<open>The functions of go-colorful behind the cobra version\<close>

text \<open>
  Where a property depends on what the library computes, the library functions that
  \<open>getGradientColor\<close> and \<open>blendHCLWithDirection\<close> call are written out, following the
  source of the library (colors.go of lucasb-eyer/go-colorful, with the sRGB matrices of
  its current version). A color is a struct of the three \<open>float64\<close> channels \<open>R\<close>, \<open>G\<close>,
  \<open>B\<close>. \<open>math.Pow\<close> is only called with a positive base, \<open>math.Cbrt\<close> is the real
  cube root.
\<close>

type_synonym Color = "real \<times> real \<times> real"

text \<open>\<open>math.Atan2(y, x)\<close>: the angle of the point \<open>(x, y)\<close>, in \<open>(-pi, pi]\<close>.\<close>

definition math_Atan2 :: "real \<Rightarrow> real \<Rightarrow> real" where
  "math_Atan2 y x =
     (if x > 0 then arctan (y / x)
      else if x < 0 then (if y \<ge> 0 then arctan (y / x) + pi else arctan (y / x) - pi)
      else if y > 0 then pi / 2 else if y < 0 then - pi / 2 else 0)"

definition linearize :: "real \<Rightarrow> real" where
  "linearize v = (if v \<le> 0.04045 then v / 12.92 else ((v + 0.055) / 1.055) powr 2.4)"

definition delinearize :: "real \<Rightarrow> real" where
  "delinearize v = (if v \<le> 0.0031308 then 12.92 * v else 1.055 * (v powr (1.0 / 2.4)) - 0.055)"

definition LinearRgbToXyz :: "real \<Rightarrow> real \<Rightarrow> real \<Rightarrow> real \<times> real \<times> real" where
  "LinearRgbToXyz r g b =
     (0.41239079926595948 * r + 0.35758433938387796 * g + 0.18048078840183429 * b,
      0.21263900587151036 * r + 0.71516867876775593 * g + 0.072192315360733715 * b,
      0.019330818715591851 * r + 0.11919477979462599 * g + 0.95053215224966058 * b)"

definition XyzToLinearRgb :: "real \<Rightarrow> real \<Rightarrow> real \<Rightarrow> real \<times> real \<times> real" where
  "XyzToLinearRgb x y z =
     (3.2409699419045214 * x - 1.5373831775700935 * y - 0.49861076029300328 * z,
      - 0.96924363628087983 * x + 1.8759675015077207 * y + 0.041555057407175613 * z,
      0.055630079696993609 * x - 0.20397695888897657 * y + 1.0569715142428786 * z)"

definition D65 :: "real \<times> real \<times> real" where
  "D65 = (0.95047, 1.00000, 1.08883)"

definition lab_f :: "real \<Rightarrow> real" where
  "lab_f t = (if t > 6.0 / 29.0 * 6.0 / 29.0 * 6.0 / 29.0 then root 3 t
              else t / 3.0 * 29.0 / 6.0 * 29.0 / 6.0 + 4.0 / 29.0)"

definition lab_finv :: "real \<Rightarrow> real" where
  "lab_finv t = (if t > 6.0 / 29.0 then t * t * t
                 else 3.0 * 6.0 / 29.0 * 6.0 / 29.0 * (t - 4.0 / 29.0))"

definition XyzToLabWhiteRef ::
  "real \<Rightarrow> real \<Rightarrow> real \<Rightarrow> real \<times> real \<times> real \<Rightarrow> real \<times> real \<times> real" where
  "XyzToLabWhiteRef x y z wref =
     (case wref of (wref0, wref1, wref2) \<Rightarrow>
        let fy = lab_f (y / wref1);
            l = 1.16 * fy - 0.16;
            a = 5.0 * (lab_f (x / wref0) - fy);
            b = 2.0 * (fy - lab_f (z / wref2))
        in (l, a, b))"

definition LabToXyzWhiteRef ::
  "real \<Rightarrow> real \<Rightarrow> real \<Rightarrow> real \<times> real \<times> real \<Rightarrow> real \<times> real \<times> real" where
  "LabToXyzWhiteRef l a b wref =
     (case wref of (wref0, wref1, wref2) \<Rightarrow>
        let l2 = (l + 0.16) / 1.16;
            x = wref0 * lab_finv (l2 + a / 5.0);
            y = wref1 * lab_finv l2;
            z = wref2 * lab_finv (l2 - b / 2.0)
        in (x, y, z))"

text \<open>\<open>LabToHcl\<close> sets the hue to 0 unless \<open>a\<close> and \<open>b - a\<close> both exceed \<open>1e-4\<close> in
  magnitude; the library's comment calls it a floating point workaround for \<open>a\<close> and
  \<open>b\<close> that are almost equal and almost zero.\<close>

definition LabToHcl :: "real \<Rightarrow> real \<Rightarrow> real \<Rightarrow> real \<times> real \<times> real" where
  "LabToHcl L a b =
     (let h = (if \<bar>b - a\<bar> > 0.0001 \<and> \<bar>a\<bar> > 0.0001
               then math_Mod (57.29577951308232087721 * math_Atan2 b a + 360.0) 360.0
               else 0.0);
          c = sqrt (a * a + b * b);
          l = L
      in (h, c, l))"

definition HclToLab :: "real \<Rightarrow> real \<Rightarrow> real \<Rightarrow> real \<times> real \<times> real" where
  "HclToLab h c l =
     (let H = 0.01745329251994329576 * h;
          a = c * cos H;
          b = c * sin H;
          L = l
      in (L, a, b))"

text \<open>The method \<open>Hcl()\<close> of a color: through linear RGB, XYZ and L*a*b* with the
  white reference D65.\<close>

definition colorful_Color_Hcl :: "Color \<Rightarrow> real \<times> real \<times> real" where
  "colorful_Color_Hcl col =
     (case col of (R, G, B) \<Rightarrow>
      case LinearRgbToXyz (linearize R) (linearize G) (linearize B) of (x, y, z) \<Rightarrow>
      case XyzToLabWhiteRef x y z D65 of (L, a, b) \<Rightarrow> LabToHcl L a b)"

text \<open>The function \<open>colorful.Hcl(h, c, l)\<close>: the way back.\<close>

definition colorful_Hcl :: "real \<Rightarrow> real \<Rightarrow> real \<Rightarrow> Color" where
  "colorful_Hcl h c l =
     (case HclToLab h c l of (L, a, b) \<Rightarrow>
      case LabToXyzWhiteRef L a b D65 of (x, y, z) \<Rightarrow>
      case XyzToLinearRgb x y z of (r, g, b) \<Rightarrow> (delinearize r, delinearize g, delinearize b))"

text \<open>The method \<open>Clamped()\<close>: each channel through
  \<open>clamp01(v) = math.Max(0.0, math.Min(v, 1.0))\<close>.\<close>

definition colorful_Clamped :: "Color \<Rightarrow> Color" where
  "colorful_Clamped col = (case col of (R, G, B) \<Rightarrow> (clamp01 R, clamp01 G, clamp01 B))"

text \<open>The method \<open>RGB255()\<close>: each channel is \<open>uint8(channel*255.0 + 0.5)\<close>. The
  conversion to \<open>uint8\<close> truncates towards zero when the value fits; otherwise the
  language leaves the result to the implementation, and the model takes it from the
  parameter \<open>ovf\<close>.\<close>

definition go_uint8 :: "(real \<Rightarrow> 8 word) \<Rightarrow> real \<Rightarrow> 8 word" where
  "go_uint8 ovf x = (if 0 \<le> trunc x \<and> trunc x < 256 then word_of_int (trunc x) else ovf x)"

definition colorful_RGB255 :: "(real \<Rightarrow> 8 word) \<Rightarrow> Color \<Rightarrow> 8 word \<times> 8 word \<times> 8 word" where
  "colorful_RGB255 ovf col =
     (case col of (R, G, B) \<Rightarrow>
        (go_uint8 ovf (R * 255.0 + 0.5), go_uint8 ovf (G * 255.0 + 0.5),
         go_uint8 ovf (B * 255.0 + 0.5)))"

text \<open>The method \<open>BlendRgb\<close>: linear in each channel.\<close>

definition colorful_BlendRgb :: "Color \<Rightarrow> Color \<Rightarrow> real \<Rightarrow> Color" where
  "colorful_BlendRgb c1 c2 t =
     (case c1 of (R1, G1, B1) \<Rightarrow> case c2 of (R2, G2, B2) \<Rightarrow>
        (R1 + t * (R2 - R1), G1 + t * (G2 - G1), B1 + t * (B2 - B1)))"

text \<open>\<open>colorful.Hex\<close> on a string of \<open>#\<close> and six hex digits: the three bytes, each
  times \<open>1.0/255.0\<close>. What the library makes of a string of another shape is not
  modelled and is taken from the parameter \<open>other\<close>.\<close>

definition hex_byte :: "char \<Rightarrow> char \<Rightarrow> real" where
  "hex_byte a b = (case (hexval a, hexval b) of (Some x, Some y) \<Rightarrow> real (x * 16 + y) | _ \<Rightarrow> 0)"

definition colorful_Hex :: "(string \<Rightarrow> Color option) \<Rightarrow> string \<Rightarrow> Color option" where
  "colorful_Hex other scol =
     (if is_hex_color scol
      then Some (hex_byte (scol ! 1) (scol ! 2) * (1.0 / 255.0),
                 hex_byte (scol ! 3) (scol ! 4) * (1.0 / 255.0),
                 hex_byte (scol ! 5) (scol ! 6) * (1.0 / 255.0))
      else other scol)"

text \<open>
  The record of the library with these functions. \<open>BlendHcl\<close> and \<open>BlendLab\<close>, which the
  cobra version does not call, and \<open>Hex\<close> on strings of another shape are not modelled:
  they are taken from the record \<open>rest\<close>. The conversion to \<open>uint8\<close> of a value that does
  not fit is the one of amd64, which keeps the low eight bits of the truncated value.
\<close>

definition go_colorful :: "Color colorful \<Rightarrow> Color colorful" where
  "go_colorful rest =
     \<lparr> Hex = colorful_Hex (Hex rest),
       Color_Hcl = colorful_Color_Hcl,
       Hcl = colorful_Hcl,
       Clamped = colorful_Clamped,
       RGB255 = colorful_RGB255 to_uint8,
       BlendRgb = colorful_BlendRgb,
       BlendHcl = BlendHcl rest,
       BlendLab = BlendLab rest \<rparr>"

subsection \<open>Clamped channels\<close>





subsection \<open>The rendering that the specification describes\<close>

text \<open>
  The specification of the rendering loop: each character is preceded by the color
  escape sequence of its unit, where the unit of a character is its running index in the
  whole input (horizontal) or the index of its line (vertical), and each line ends with
  a line break; a line without characters in a vertical gradient of more than one unit
  is the color escape sequence of its line followed by the line break.
\<close>

definition spec_escape :: "'c colorful \<Rightarrow> config \<Rightarrow> real \<Rightarrow> rune list" where
  "spec_escape L cfg progress =
     (case getGradientColor L progress (startColor cfg) (endColor cfg) (hueDirection cfg) of
        Inl e \<Rightarrow> []
      | Inr colorPart \<Rightarrow> runes (ESC # ''['') @ runes colorPart)"

fun spec_chars :: "'c colorful \<Rightarrow> config \<Rightarrow> int \<Rightarrow> int \<Rightarrow> int \<Rightarrow> rune list \<Rightarrow> rune list" where
  "spec_chars L cfg totalUnits lineIndex position [] = []"
| "spec_chars L cfg totalUnits lineIndex position (char # rest) =
     spec_escape L cfg
       (progressFor (if gradientDirection cfg = ''horizontal'' then position else lineIndex)
          totalUnits (invert cfg) (steps cfg))
     @ [char] @ spec_chars L cfg totalUnits lineIndex (position + 1) rest"

definition spec_line :: "'c colorful \<Rightarrow> config \<Rightarrow> int \<Rightarrow> int \<Rightarrow> int \<Rightarrow> rune list \<Rightarrow> rune list" where
  "spec_line L cfg totalUnits lineIndex position line =
     (if gradientDirection cfg = ''vertical'' \<and> line = [] \<and> totalUnits > 1
      then spec_escape L cfg (progressFor lineIndex totalUnits (invert cfg) (steps cfg))
           @ runes [NL]
      else spec_chars L cfg totalUnits lineIndex position line @ runes [NL])"

fun spec_lines :: "'c colorful \<Rightarrow> config \<Rightarrow> int \<Rightarrow> int \<Rightarrow> int \<Rightarrow> rune list list \<Rightarrow> rune list" where
  "spec_lines L cfg totalUnits lineIndex position [] = []"
| "spec_lines L cfg totalUnits lineIndex position (line # rest) =
     spec_line L cfg totalUnits lineIndex position line
     @ spec_lines L cfg totalUnits (lineIndex + 1) (position + int (length line)) rest"

section \<open>Properties\<close>

subsection \<open>Remainders and rounding\<close>

lemma math_Mod_360_low: "0 \<le> x \<Longrightarrow> x < 360 \<Longrightarrow> math_Mod x 360 = x"
proof -
  assume a: "0 \<le> x" "x < 360"
  have "\<lfloor>x / 360\<rfloor> = 0" using a by (simp add: floor_eq_iff)
  then show ?thesis using a by (simp add: math_Mod_def trunc_def)
qed

lemma math_Mod_360_mid: "360 \<le> x \<Longrightarrow> x < 720 \<Longrightarrow> math_Mod x 360 = x - 360"
proof -
  assume a: "360 \<le> x" "x < 720"
  have "\<lfloor>x / 360\<rfloor> = 1" using a by (simp add: floor_eq_iff)
  then show ?thesis using a by (simp add: math_Mod_def trunc_def)
qed

lemma math_Mod_360_high: "720 \<le> x \<Longrightarrow> x < 1080 \<Longrightarrow> math_Mod x 360 = x - 720"
proof -
  assume a: "720 \<le> x" "x < 1080"
  have "\<lfloor>x / 360\<rfloor> = 2" using a by (simp add: floor_eq_iff)
  then show ?thesis using a by (simp add: math_Mod_def trunc_def)
qed

lemma normHue_id: "0 \<le> h \<Longrightarrow> h < 360 \<Longrightarrow> normHue h = h"
  using math_Mod_360_mid [of "h + 360"] by (simp add: normHue_def)

lemma math_Mod_back:
  assumes "0 \<le> h" "h < 360" "x = h \<or> x = h + 360 \<or> x = h + 720"
  shows "math_Mod x 360 = h"
  using assms math_Mod_360_low [of x] math_Mod_360_mid [of x] math_Mod_360_high [of x] by auto

lemma math_Round_near: "\<bar>math_Round x - x\<bar> \<le> 1 / 2"
proof (cases "x < 0")
  case True
  have "of_int \<lfloor>- x + 1 / 2\<rfloor> \<le> - x + 1 / 2" by linarith
  moreover have "- x + 1 / 2 < of_int \<lfloor>- x + 1 / 2\<rfloor> + 1" by linarith
  ultimately show ?thesis using True unfolding math_Round_def by (simp only: if_True)
next
  case False
  have "of_int \<lfloor>x + 1 / 2\<rfloor> \<le> x + 1 / 2" by linarith
  moreover have "x + 1 / 2 < of_int \<lfloor>x + 1 / 2\<rfloor> + 1" by linarith
  ultimately show ?thesis using False unfolding math_Round_def by (simp only: if_False)
qed

lemma math_Round_of_int: "math_Round (of_int m) = of_int m"
proof (cases "m < 0")
  case True
  have "\<lfloor>- real_of_int m + 1 / 2\<rfloor> = - m" by (simp add: floor_eq_iff)
  then show ?thesis using True by (simp add: math_Round_def)
next
  case False
  have "\<lfloor>real_of_int m + 1 / 2\<rfloor> = m" by (simp add: floor_eq_iff)
  then show ?thesis using False by (simp add: math_Round_def)
qed

lemma math_Round_is_int: "\<exists>m::int. math_Round x = of_int m"
  unfolding math_Round_def by (metis of_int_minus)

lemma math_Round_range:
  assumes "0 \<le> x" "x \<le> of_int k"
  shows "\<exists>m::int. 0 \<le> m \<and> m \<le> k \<and> math_Round x = of_int m"
proof -
  have r: "math_Round x = of_int \<lfloor>x + 1 / 2\<rfloor>" using assms by (simp add: math_Round_def)
  have "0 \<le> \<lfloor>x + 1 / 2\<rfloor>" using assms by simp
  moreover have "\<lfloor>x + 1 / 2\<rfloor> \<le> k" using assms by (simp add: floor_le_iff)
  ultimately show ?thesis using r by blast
qed

lemma math_Round_nearest: "\<bar>math_Round x - x\<bar> \<le> \<bar>of_int m - x\<bar>"
proof -
  obtain r :: int where r: "math_Round x = of_int r" using math_Round_is_int by blast
  have n: "\<bar>real_of_int r - x\<bar> \<le> 1 / 2" using math_Round_near [of x] r by simp
  show ?thesis
  proof (cases "m = r")
    case True
    then show ?thesis using r by simp
  next
    case False
    then have "1 \<le> \<bar>m - r\<bar>" by linarith
    then have "1 \<le> \<bar>real_of_int m - real_of_int r\<bar>"
      by (metis of_int_1 of_int_abs of_int_diff of_int_le_iff)
    then show ?thesis using n r by linarith
  qed
qed

subsection \<open>Progress\<close>

text \<open>
  Claim C1. The raw progress of a gradient unit is 0 whenever the number of units is at
  most 1, and otherwise the position divided by the number of units minus one; with more
  than one unit the first unit (position 0) has progress exactly 0 and the last unit
  (position \<open>totalUnits - 1\<close>) has progress exactly 1. The cobra version and the flag
  version compute the same value, and without inversion and steps it is the progress
  handed to the color interpolation.
\<close>

theorem progress_of_unit:
  "rawProgress position totalUnits =
      (if totalUnits \<le> 1 then 0 else of_int position / of_int (totalUnits - 1))
   \<and> rawProgress_flag position totalUnits =
      (if totalUnits \<le> 1 then 0 else of_int position / of_int (totalUnits - 1))
   \<and> progressFor position totalUnits False 0 = rawProgress position totalUnits
   \<and> progressFor_flag position totalUnits False 0 = rawProgress_flag position totalUnits
   \<and> (totalUnits > 1 \<longrightarrow>
        rawProgress 0 totalUnits = 0 \<and> rawProgress (totalUnits - 1) totalUnits = 1
      \<and> rawProgress_flag 0 totalUnits = 0 \<and> rawProgress_flag (totalUnits - 1) totalUnits = 1)"
  by (simp add: rawProgress_def rawProgress_flag_def progressFor_def progressFor_flag_def
      applyInvert_def applySteps_def)

theorem progress_of_unit_witness:
  "(3::int) > 1 \<and> rawProgress 0 3 = 0 \<and> rawProgress (3 - 1) 3 = 1 \<and> rawProgress 1 3 = 1 / 2
   \<and> rawProgress_flag 0 3 = 0 \<and> rawProgress_flag (3 - 1) 3 = 1
   \<and> rawProgress 5 1 = 0 \<and> rawProgress 5 0 = 0"
  using progress_of_unit [of 0 3] progress_of_unit [of 1 3] progress_of_unit [of 5 1]
    progress_of_unit [of 5 0]
  by simp

text \<open>
  Claim C2. With a step count \<open>k > 0\<close> the quantized progress is
  \<open>round(p * k) / k\<close>: a multiple of \<open>1/k\<close>, no multiple of \<open>1/k\<close> is nearer to
  \<open>p\<close>, for \<open>p\<close> in \<open>[0,1]\<close> it is one of the \<open>k + 1\<close> levels \<open>0, 1/k, ..., k/k\<close>, and
  every such level is kept as it is. With step count 0 the progress is unchanged. With
  \<open>k = 3\<close> the progress 0.2 becomes \<open>1/3\<close>.
\<close>

theorem steps_quantize:
  "(0 < k \<longrightarrow>
      applySteps k p = math_Round (p * of_int k) / of_int k
    \<and> (\<exists>m::int. applySteps k p = of_int m / of_int k)
    \<and> (\<forall>m::int. \<bar>applySteps k p - p\<bar> \<le> \<bar>of_int m / of_int k - p\<bar>)
    \<and> (0 \<le> p \<and> p \<le> 1 \<longrightarrow>
         (\<exists>m::int. 0 \<le> m \<and> m \<le> k \<and> applySteps k p = of_int m / of_int k))
    \<and> (\<forall>j::int. applySteps k (of_int j / of_int k) = of_int j / of_int k))
  \<and> applySteps 0 p = p
  \<and> applySteps 3 (2 / 10) = 1 / 3"
proof -
  have A: "applySteps 0 p = p" by (simp add: applySteps_def)
  have B: "applySteps 3 (2 / 10) = 1 / 3" by (simp add: applySteps_def math_Round_def)
  have C: "applySteps k p = math_Round (p * of_int k) / of_int k
    \<and> (\<exists>m::int. applySteps k p = of_int m / of_int k)
    \<and> (\<forall>m::int. \<bar>applySteps k p - p\<bar> \<le> \<bar>of_int m / of_int k - p\<bar>)
    \<and> (0 \<le> p \<and> p \<le> 1 \<longrightarrow>
         (\<exists>m::int. 0 \<le> m \<and> m \<le> k \<and> applySteps k p = of_int m / of_int k))
    \<and> (\<forall>j::int. applySteps k (of_int j / of_int k) = of_int j / of_int k)" if k: "0 < k"
  proof -
    have kr: "0 < real_of_int k" using k by simp
    have e: "applySteps k p = math_Round (p * of_int k) / of_int k"
      using k by (simp add: applySteps_def)
    have ex: "\<exists>m::int. applySteps k p = of_int m / of_int k"
      using e math_Round_is_int [of "p * of_int k"] by auto
    have near: "\<bar>applySteps k p - p\<bar> \<le> \<bar>of_int m / of_int k - p\<bar>" for m :: int
    proof -
      have "\<bar>math_Round (p * of_int k) - p * of_int k\<bar> \<le> \<bar>of_int m - p * of_int k\<bar>"
        by (rule math_Round_nearest)
      then have "\<bar>math_Round (p * of_int k) - p * of_int k\<bar> / of_int k
                   \<le> \<bar>of_int m - p * of_int k\<bar> / of_int k"
        using kr by (simp add: divide_right_mono)
      moreover have "\<bar>math_Round (p * of_int k) - p * of_int k\<bar> / of_int k
                       = \<bar>math_Round (p * of_int k) / of_int k - p\<bar>"
        using kr by (simp add: abs_div_pos diff_divide_distrib)
      moreover have "\<bar>of_int m - p * of_int k\<bar> / of_int k = \<bar>of_int m / of_int k - p\<bar>"
        using kr by (simp add: abs_div_pos diff_divide_distrib)
      ultimately show ?thesis using e by simp
    qed
    have rng: "\<exists>m::int. 0 \<le> m \<and> m \<le> k \<and> applySteps k p = of_int m / of_int k"
      if "0 \<le> p \<and> p \<le> 1"
    proof -
      have "0 \<le> p * of_int k" "p * of_int k \<le> of_int k" using that kr
        by (simp_all add: mult_left_le_one_le)
      from math_Round_range [OF this] show ?thesis using e by auto
    qed
    have level: "applySteps k (of_int j / of_int k) = of_int j / of_int k" for j :: int
      using k by (simp add: applySteps_def math_Round_of_int)
    show ?thesis using e ex near rng level by blast
  qed
  show ?thesis using A B C by blast
qed

theorem steps_quantize_witness:
  "(0::int) < 3 \<and> (0::real) \<le> 2 / 10 \<and> (2 / 10 :: real) \<le> 1
   \<and> applySteps 3 (2 / 10) = math_Round (2 / 10 * of_int 3) / of_int 3
   \<and> (\<exists>m::int. 0 \<le> m \<and> m \<le> 3 \<and> applySteps 3 (2 / 10) = of_int m / of_int 3)
   \<and> applySteps 3 (2 / 10) = 1 / 3"
proof -
  have k: "(0::int) < 3" by simp
  have p: "(0::real) \<le> 2 / 10 \<and> (2 / 10 :: real) \<le> 1" by simp
  show ?thesis using steps_quantize [of 3 "2 / 10"] k p by blast
qed

subsection \<open>Hue delta\<close>

lemma deltaH_shortest:
  assumes "dir \<notin> {''clockwise'', ''cw'', ''counter-clockwise'', ''counterclockwise'', ''ccw''}"
  shows "deltaH dir h1 h2 = foldShortest (h2 - h1)"
proof -
  have nb: "dir \<notin> {''clockwise'', ''cw''}" using assms by blast
  have nc: "dir \<notin> {''counter-clockwise'', ''counterclockwise'', ''ccw''}" using assms by blast
  show ?thesis unfolding deltaH_def by (simp only: nb nc if_False if_cancel)
qed

text \<open>
  Claim C3, as the code has it. For two hues in \<open>[0,360)\<close> the hue delta of the
  shortest policy (the value \<open>shortest\<close>, its short forms, and every value that the
  switch does not know) is the raw difference \<open>end - start\<close>, less 360 when it is above
  180 and plus 360 when it is below -180. It lies in the closed interval \<open>[-180, 180]\<close>:
  a raw difference of exactly -180 stays -180. The sweep is never more than 180 degrees.
\<close>

theorem shortest_delta:
  assumes "0 \<le> h1" "h1 < 360" "0 \<le> h2" "h2 < 360"
    and "dir \<notin> {''clockwise'', ''cw'', ''counter-clockwise'', ''counterclockwise'', ''ccw''}"
  shows "deltaH dir h1 h2 =
           (if h2 - h1 > 180 then h2 - h1 - 360
            else if h2 - h1 < - 180 then h2 - h1 + 360 else h2 - h1)
       \<and> - 180 \<le> deltaH dir h1 h2 \<and> deltaH dir h1 h2 \<le> 180
       \<and> \<bar>deltaH dir h1 h2\<bar> \<le> 180"
  unfolding deltaH_shortest [OF assms(5)] foldShortest_def using assms(1-4) by auto

theorem shortest_delta_witness:
  "(0::real) \<le> 350 \<and> (350::real) < 360 \<and> (0::real) \<le> 10 \<and> (10::real) < 360
   \<and> ''shortest'' \<notin> {''clockwise'', ''cw'', ''counter-clockwise'', ''counterclockwise'', ''ccw''}
   \<and> deltaH ''shortest'' 350 10 = 20 \<and> \<bar>deltaH ''shortest'' 350 10\<bar> \<le> 180"
proof -
  have d: "''shortest'' \<notin> {''clockwise'', ''cw'', ''counter-clockwise'', ''counterclockwise'', ''ccw''}"
    by simp
  have "deltaH ''shortest'' 350 10 = 20 \<and> \<bar>deltaH ''shortest'' 350 10\<bar> \<le> 180"
    using shortest_delta [of 350 10 "''shortest''", OF _ _ _ _ d] by simp
  then show ?thesis using d by simp
qed

text \<open>The claim as written puts the delta in the half-open interval \<open>(-180, 180]\<close>. From
  hue 180 to hue 0 the delta is -180.\<close>

theorem shortest_delta_not_half_open:
  "\<not> (- 180 < deltaH ''shortest'' 180 0 \<and> deltaH ''shortest'' 180 0 \<le> 180)"
  by (simp add: deltaH_def foldShortest_def)

text \<open>
  Claim C4. For two hues in \<open>[0,360)\<close> the hue delta of the clockwise policy is
  \<open>((end - start) + 360) mod 360\<close>, that is \<open>end - start\<close> brought into \<open>[0,360)\<close>, and
  is never negative; the hue delta of the counter-clockwise policy is
  \<open>-(((start - end) + 360) mod 360)\<close>, that is \<open>end - start\<close> brought into \<open>(-360,0]\<close>,
  and is never positive.
\<close>

theorem directed_delta:
  assumes "0 \<le> h1" "h1 < 360" "0 \<le> h2" "h2 < 360"
  shows "deltaH ''clockwise'' h1 h2 = math_Mod ((h2 - h1) + 360) 360
       \<and> deltaH ''clockwise'' h1 h2 = (if h1 \<le> h2 then h2 - h1 else h2 - h1 + 360)
       \<and> 0 \<le> deltaH ''clockwise'' h1 h2
       \<and> deltaH ''counter-clockwise'' h1 h2 = - math_Mod ((h1 - h2) + 360) 360
       \<and> deltaH ''counter-clockwise'' h1 h2 = (if h2 \<le> h1 then h2 - h1 else h2 - h1 - 360)
       \<and> deltaH ''counter-clockwise'' h1 h2 \<le> 0"
proof -
  have cw: "deltaH ''clockwise'' h1 h2 = math_Mod ((h2 - h1) + 360) 360"
    by (simp add: deltaH_def)
  have ccw: "deltaH ''counter-clockwise'' h1 h2 = - math_Mod ((h1 - h2) + 360) 360"
    by (simp add: deltaH_def)
  have m1: "math_Mod ((h2 - h1) + 360) 360 = (if h1 \<le> h2 then h2 - h1 else h2 - h1 + 360)"
  proof (cases "h1 \<le> h2")
    case True
    then show ?thesis using assms math_Mod_360_mid [of "h2 - h1 + 360"] by simp
  next
    case False
    then show ?thesis using assms math_Mod_360_low [of "h2 - h1 + 360"] by simp
  qed
  have m2: "math_Mod ((h1 - h2) + 360) 360 = (if h2 \<le> h1 then h1 - h2 else h1 - h2 + 360)"
  proof (cases "h2 \<le> h1")
    case True
    then show ?thesis using assms math_Mod_360_mid [of "h1 - h2 + 360"] by simp
  next
    case False
    then show ?thesis using assms math_Mod_360_low [of "h1 - h2 + 360"] by simp
  qed
  show ?thesis unfolding cw ccw m1 m2 using assms by auto
qed

theorem directed_delta_witness:
  "(0::real) \<le> 350 \<and> (350::real) < 360 \<and> (0::real) \<le> 10 \<and> (10::real) < 360
   \<and> deltaH ''clockwise'' 350 10 = 20 \<and> deltaH ''counter-clockwise'' 350 10 = - 340"
  using directed_delta [of 350 10] by simp


text \<open>Whatever the hue direction, the interpolated hue starts at the first hue and
  arrives at the second.\<close>

lemma deltaH_cases:
  "deltaH dir h1 h2 = foldShortest (h2 - h1)
   \<or> deltaH dir h1 h2 = math_Mod (h2 - h1 + 360) 360
   \<or> deltaH dir h1 h2 = - math_Mod (h1 - h2 + 360) 360"
  unfolding deltaH_def by (simp only: split: if_split) blast

lemma hue_arrives:
  assumes "0 \<le> h1" "h1 < 360" "0 \<le> h2" "h2 < 360"
  shows "math_Mod (h1 + 1 * deltaH dir h1 h2 + 360) 360 = h2"
proof -
  have m1: "math_Mod (h2 - h1 + 360) 360 = (if h1 \<le> h2 then h2 - h1 else h2 - h1 + 360)"
    using assms math_Mod_360_mid [of "h2 - h1 + 360"] math_Mod_360_low [of "h2 - h1 + 360"]
    by auto
  have m2: "math_Mod (h1 - h2 + 360) 360 = (if h2 \<le> h1 then h1 - h2 else h1 - h2 + 360)"
    using assms math_Mod_360_mid [of "h1 - h2 + 360"] math_Mod_360_low [of "h1 - h2 + 360"]
    by auto
  have "h1 + 1 * deltaH dir h1 h2 + 360 = h2
      \<or> h1 + 1 * deltaH dir h1 h2 + 360 = h2 + 360
      \<or> h1 + 1 * deltaH dir h1 h2 + 360 = h2 + 720"
    using deltaH_cases [of dir h1 h2] unfolding m1 m2 foldShortest_def
    by (auto split: if_splits)
  then show ?thesis using math_Mod_back [OF assms(3,4)] by blast
qed

lemma hue_starts:
  assumes "0 \<le> h1" "h1 < 360"
  shows "math_Mod (h1 + 0 * d + 360) 360 = h1"
  using assms math_Mod_360_mid [of "h1 + 360"] by simp

subsection \<open>Interpolation: helper facts\<close>





lemma blend_endpoint_coordinates:
  assumes "Color_Hcl L c1 = (h1, chroma1, l1)" "Color_Hcl L c2 = (h2, chroma2, l2)"
    and "0 \<le> h1" "h1 < 360" "0 \<le> h2" "h2 < 360"
  shows "blendHCLWithDirection L c1 c2 0 dir = Hcl L h1 chroma1 l1"
    and "blendHCLWithDirection L c1 c2 1 dir = Hcl L h2 chroma2 l2"
proof -
  have n: "normHue h1 = h1" "normHue h2 = h2" using assms normHue_id by simp_all
  show "blendHCLWithDirection L c1 c2 0 dir = Hcl L h1 chroma1 l1"
    unfolding blendHCLWithDirection_def assms(1,2) Let_def prod.case n
    using hue_starts [OF assms(3,4)] by simp
  show "blendHCLWithDirection L c1 c2 1 dir = Hcl L h2 chroma2 l2"
    unfolding blendHCLWithDirection_def assms(1,2) Let_def prod.case n
    using hue_arrives [OF assms(3-6)] by simp
qed

lemma getGradientColor_Inr:
  assumes "Hex L startHex = Some c1" "Hex L endHex = Some c2"
  shows "\<exists>r g b. RGB255 L (Clamped L (blendHCLWithDirection L c1 c2 progress dir)) = (r, g, b)
           \<and> getGradientColor L progress startHex endHex dir
               = Inr (colorPart_of (uint r) (uint g) (uint b))"
  using assms by (simp add: getGradientColor_def split: prod.splits)

lemma getGradientColor_flag_Inr:
  assumes "Hex L startHex \<noteq> None" "Hex L endHex \<noteq> None"
    and "cs = ''rgb'' \<or> cs = ''hcl'' \<or> cs = ''lab''"
  shows "\<exists>colorPart. getGradientColor_flag L progress startHex endHex cs dir = Inr colorPart"
proof -
  obtain c1 c2 where "Hex L startHex = Some c1" "Hex L endHex = Some c2"
    using assms(1,2) by auto
  then show ?thesis using assms(3)
    by (auto simp add: getGradientColor_flag_def split: prod.splits)
qed

subsection \<open>The start color through hue, chroma and luminance\<close>

lemma blend_at_start:
  assumes "Color_Hcl L c1 = (h1, chroma1, l1)" "0 \<le> h1" "h1 < 360"
  shows "blendHCLWithDirection L c1 c2 0 dir = Hcl L h1 chroma1 l1"
proof -
  obtain h2 chroma2 l2 where b: "Color_Hcl L c2 = (h2, chroma2, l2)"
    by (cases "Color_Hcl L c2")
  have n: "normHue h1 = h1" using assms(2,3) normHue_id by simp
  show ?thesis
    unfolding blendHCLWithDirection_def assms(1) b Let_def prod.case n
    using hue_starts [OF assms(2,3)] by simp
qed

lemma Hcl_of_000304:
  "colorful_Color_Hcl (0, 3 / 255, 4 / 255) =
     (0,
      sqrt ((- 2702809812272285474297 / 418815100800000000000000)
              * (- 2702809812272285474297 / 418815100800000000000000)
            + (- 2538476041526912775366041 / 387424006344000000000000000)
              * (- 2538476041526912775366041 / 387424006344000000000000000)),
      1187390804734642728617 / 177908400000000000000000)"
proof -
  have 1: "LinearRgbToXyz (linearize 0) (linearize (3 / 255)) (linearize (4 / 255)) =
             (219935805362619 / 403750000000000000,
              48685505954924053 / 65892000000000000000,
              138657098279417343 / 109820000000000000000)"
    by (simp add: linearize_def LinearRgbToXyz_def)
  have 2: "XyzToLabWhiteRef (219935805362619 / 403750000000000000)
             (48685505954924053 / 65892000000000000000)
             (138657098279417343 / 109820000000000000000) D65 =
             (1187390804734642728617 / 177908400000000000000000,
              - 2702809812272285474297 / 418815100800000000000000,
              - 2538476041526912775366041 / 387424006344000000000000000)"
    by (simp add: XyzToLabWhiteRef_def D65_def lab_f_def Let_def)
  have 3: "LabToHcl (1187390804734642728617 / 177908400000000000000000)
             (- 2702809812272285474297 / 418815100800000000000000)
             (- 2538476041526912775366041 / 387424006344000000000000000) =
     (0,
      sqrt ((- 2702809812272285474297 / 418815100800000000000000)
              * (- 2702809812272285474297 / 418815100800000000000000)
            + (- 2538476041526912775366041 / 387424006344000000000000000)
              * (- 2538476041526912775366041 / 387424006344000000000000000)),
      1187390804734642728617 / 177908400000000000000000)"
    by (simp add: LabToHcl_def Let_def)
  show ?thesis
    unfolding colorful_Color_Hcl_def by (simp only: prod.case 1 2 3)
qed

lemma chroma_of_000304:
  "919 / 100000 <
     sqrt ((- 2702809812272285474297 / 418815100800000000000000)
              * (- 2702809812272285474297 / 418815100800000000000000)
            + (- 2538476041526912775366041 / 387424006344000000000000000)
              * (- 2538476041526912775366041 / 387424006344000000000000000))"
  "sqrt ((- 2702809812272285474297 / 418815100800000000000000)
              * (- 2702809812272285474297 / 418815100800000000000000)
            + (- 2538476041526912775366041 / 387424006344000000000000000)
              * (- 2538476041526912775366041 / 387424006344000000000000000))
     < 92 / 10000"
  by (rule real_less_rsqrt, simp add: power2_eq_square)
     (rule real_less_lsqrt, simp_all add: power2_eq_square)

lemma go_uint8_floor:
  assumes "of_int k \<le> x" "x < of_int k + 1" "0 \<le> k" "k < 256"
  shows "go_uint8 ovf x = word_of_int k"
proof -
  have "0 \<le> x" using assms(1,3) by (metis of_int_0_le_iff order_trans)
  moreover have "\<lfloor>x\<rfloor> = k" using assms(1,2) by (simp add: floor_eq_iff)
  ultimately show ?thesis using assms(3,4) by (simp add: go_uint8_def trunc_def)
qed

lemma Hcl_hue_0_of_000304:
  assumes "919 / 100000 < s" "s < 92 / 10000"
  shows "colorful_RGB255 ovf (colorful_Clamped
           (colorful_Hcl 0 s (1187390804734642728617 / 177908400000000000000000))) = (5, 2, 2)"
proof -
  let ?L = "1187390804734642728617 / 177908400000000000000000 :: real"
  let ?x = "272200663793980380323 / 387600000000000000000000 + 2566269 / 105125000 * s"
  let ?y = "48685505954924053 / 65892000000000000000 :: real"
  let ?z = "5301023944889995662799 / 6589200000000000000000000 :: real"
  have a: "HclToLab 0 s ?L = (?L, s, 0)"
    by (simp add: HclToLab_def)
  have c1: "\<not> 6 / 29 < (?L + 0.16) / 1.16 + s / 5" using assms by simp
  have b: "LabToXyzWhiteRef ?L s 0 D65 = (?x, ?y, ?z)"
    using c1 by (simp add: LabToXyzWhiteRef_def D65_def lab_finv_def Let_def field_simps)
  obtain r g bl where c: "XyzToLinearRgb ?x ?y ?z = (r, g, bl)"
    and r: "r = 3.2409699419045214 * ?x - 1.5373831775700935 * ?y - 0.49861076029300328 * ?z"
    and g: "g = - 0.96924363628087983 * ?x + 1.8759675015077207 * ?y + 0.041555057407175613 * ?z"
    and bl: "bl = 0.055630079696993609 * ?x - 0.20397695888897657 * ?y + 1.0569715142428786 * ?z"
    by (simp add: XyzToLinearRgb_def)
  have rb: "4.83 / (255 * 12.92) \<le> r" "r < 5.5 / (255 * 12.92)"
    unfolding r using assms by (simp_all add: algebra_simps)
  have gb: "1.7 / (255 * 12.92) \<le> g" "g < 2.5 / (255 * 12.92)"
    unfolding g using assms by (simp_all add: algebra_simps)
  have bb: "1.6 / (255 * 12.92) \<le> bl" "bl < 2.5 / (255 * 12.92)"
    unfolding bl using assms by (simp_all add: algebra_simps)
  have d: "delinearize r = 12.92 * r" "delinearize g = 12.92 * g" "delinearize bl = 12.92 * bl"
    using rb gb bb by (simp_all add: delinearize_def)
  have e: "clamp01 (12.92 * r) = 12.92 * r" "clamp01 (12.92 * g) = 12.92 * g"
    "clamp01 (12.92 * bl) = 12.92 * bl"
    using rb gb bb by (simp_all add: clamp01_def max_def min_def)
  have col: "colorful_Clamped (colorful_Hcl 0 s ?L) = (12.92 * r, 12.92 * g, 12.92 * bl)"
    unfolding colorful_Hcl_def colorful_Clamped_def
    by (simp only: a b c d e prod.case)
  have R: "go_uint8 ovf (12.92 * r * 255.0 + 0.5) = 5"
    using go_uint8_floor [of 5 "12.92 * r * 255.0 + 0.5" ovf] rb by simp
  have G: "go_uint8 ovf (12.92 * g * 255.0 + 0.5) = 2"
    using go_uint8_floor [of 2 "12.92 * g * 255.0 + 0.5" ovf] gb by simp
  have B: "go_uint8 ovf (12.92 * bl * 255.0 + 0.5) = 2"
    using go_uint8_floor [of 2 "12.92 * bl * 255.0 + 0.5" ovf] bb by simp
  show ?thesis unfolding col colorful_RGB255_def by (simp only: prod.case R G B)
qed

lemma Hex_000304:
  "Hex (go_colorful rest) ''#000304'' = Some (0, 3 / 255, 4 / 255)"
  "Hex (go_colorful rest) ''#00FFFF'' = Some (0, 1, 1)"
  by (simp_all add: go_colorful_def colorful_Hex_def is_hex_color_def hexval_def hex_byte_def)

lemma getGradientColor_000304:
  assumes "Hex (go_colorful rest) endHex = Some c2"
  shows "getGradientColor (go_colorful rest) 0 ''#000304'' endHex dir = Inr ''38;2;5;2;2m''"
proof -
  let ?L = "go_colorful rest"
  let ?s = "sqrt ((- 2702809812272285474297 / 418815100800000000000000)
              * (- 2702809812272285474297 / 418815100800000000000000)
            + (- 2538476041526912775366041 / 387424006344000000000000000)
              * (- 2538476041526912775366041 / 387424006344000000000000000))"
  let ?l = "1187390804734642728617 / 177908400000000000000000 :: real"
  have h: "Color_Hcl ?L (0, 3 / 255, 4 / 255) = (0, ?s, ?l)"
    using Hcl_of_000304 by (simp add: go_colorful_def)
  have bl: "blendHCLWithDirection ?L (0, 3 / 255, 4 / 255) c2 0 dir = Hcl ?L 0 ?s ?l"
    using blend_at_start [OF h] by simp
  have "RGB255 ?L (Clamped ?L (Hcl ?L 0 ?s ?l)) = (5, 2, 2)"
    using Hcl_hue_0_of_000304 [OF chroma_of_000304, of to_uint8] by (simp add: go_colorful_def)
  moreover have "colorPart_of (uint (5 :: 8 word)) (uint (2 :: 8 word)) (uint (2 :: 8 word))
                   = ''38;2;5;2;2m''"
    by code_simp
  ultimately show ?thesis
    using Hex_000304(1) [of rest] assms bl by (simp add: getGradientColor_def)
qed

lemma RGB255_of_000304:
  "RGB255 (go_colorful rest) (Clamped (go_colorful rest) (0, 3 / 255, 4 / 255)) = (0, 3, 4)"
  by (simp add: go_colorful_def colorful_Clamped_def colorful_RGB255_def clamp01_def
        go_uint8_def trunc_def)

lemma Run_000304:
  "Run (go_colorful rest) (default_config\<lparr>startColor := ''#000304''\<rparr>) []
       \<lparr>lines_read = [[65]], read_error = False\<rparr>
     = \<lparr>stdout = runes (ESC # ''[38;2;5;2;2mA'' @ [NL]) @ RESET_NL, failure = None\<rparr>"
proof -
  have g: "getGradientColor (go_colorful rest) 0 ''#000304'' ''#00FFFF'' ''shortest''
             = Inr ''38;2;5;2;2m''"
    using getGradientColor_000304 [OF Hex_000304(2)] .
  show ?thesis
    by (simp add: Run_def default_config_def Hex_000304 count_chars_def rawProgress_def
          applyInvert_def applySteps_def g runes_def Let_def)
qed

text \<open>
  Claim C5, at the start color \<open>#000304\<close> in the cobra version. The claim has the
  interpolation at progress 0 return the start color, within the tolerance of the final
  rounding. \<open>blendHCLWithDirection\<close> takes the start color to hue, chroma and luminance
  and back also at progress 0, and \<open>LabToHcl\<close> of the library sets the hue to 0 when
  \<open>a\<close> and \<open>b\<close> differ by at most \<open>1e-4\<close>. For \<open>#000304\<close>, whose channels are 0, 3 and
  4, they are \<open>-0.006453\<close> and \<open>-0.006552\<close>: the hue that comes back is 0 where the
  color has a hue of about 225, and \<open>getGradientColor\<close> returns the channels 5, 2 and
  2. The run of the cobra version with this start color, the other flags at their
  defaults and the one line \<open>A\<close> on standard input prints \<open>A\<close> in that color.
\<close>

theorem start_color_not_returned:
  "Hex (go_colorful rest) ''#000304'' = Some (0, 3 / 255, 4 / 255)
   \<and> RGB255 (go_colorful rest) (Clamped (go_colorful rest) (0, 3 / 255, 4 / 255)) = (0, 3, 4)
   \<and> getGradientColor (go_colorful rest) 0 ''#000304'' ''#00FFFF'' ''shortest''
       = Inr ''38;2;5;2;2m''
   \<and> Run (go_colorful rest) (default_config\<lparr>startColor := ''#000304''\<rparr>) []
         \<lparr>lines_read = [[65]], read_error = False\<rparr>
       = \<lparr>stdout = runes (ESC # ''[38;2;5;2;2mA'' @ [NL]) @ RESET_NL, failure = None\<rparr>"
  using Hex_000304(1) [of rest] RGB255_of_000304 [of rest]
    getGradientColor_000304 [OF Hex_000304(2), of rest "''shortest''"] Run_000304 [of rest]
  by (intro conjI)

subsection \<open>The channels are clamped\<close>
























subsection \<open>Runs\<close>

lemma spec_escape_Inr:
  assumes "Hex L (startColor cfg) \<noteq> None" "Hex L (endColor cfg) \<noteq> None"
  shows "\<exists>colorPart.
           getGradientColor L progress (startColor cfg) (endColor cfg) (hueDirection cfg) = Inr colorPart
         \<and> spec_escape L cfg progress = runes (ESC # ''['') @ runes colorPart"
proof -
  obtain c1 c2 where "Hex L (startColor cfg) = Some c1" "Hex L (endColor cfg) = Some c2"
    using assms by auto
  from getGradientColor_Inr [OF this] show ?thesis
    unfolding spec_escape_def by (metis sum.case(2)) 
qed

lemma chars_loop_spec:
  assumes "Hex L (startColor cfg) \<noteq> None" "Hex L (endColor cfg) \<noteq> None"
    and "gradientDirection cfg = ''horizontal'' \<longrightarrow> charCount = position"
  shows "chars_loop L cfg units lineIndex charCount out line =
           (out @ spec_chars L cfg units lineIndex position line,
            (if gradientDirection cfg = ''horizontal'' then charCount + int (length line)
             else charCount),
            None)"
  using assms(3)
proof (induction line arbitrary: charCount position out)
  case Nil
  then show ?case by simp
next
  case (Cons char rest)
  let ?p = "progressFor (if gradientDirection cfg = ''horizontal'' then position else lineIndex)
              units (invert cfg) (steps cfg)"
  obtain colorPart where cp:
    "getGradientColor L ?p (startColor cfg) (endColor cfg) (hueDirection cfg) = Inr colorPart"
    "spec_escape L cfg ?p = runes (ESC # ''['') @ runes colorPart"
    using spec_escape_Inr [OF assms(1,2)] by blast
  show ?case
  proof (cases "gradientDirection cfg = ''horizontal''")
    case True
    then have eq: "charCount = position" using Cons.prems by simp
    have ih: "chars_loop L cfg units lineIndex (position + 1) out' rest =
           (out' @ spec_chars L cfg units lineIndex (position + 1) rest,
            position + 1 + int (length rest), None)" for out'
      using Cons.IH [of "position + 1" "position + 1" out'] True by simp
    show ?thesis using True cp eq ih
      by (simp add: progressFor_def Let_def)
  next
    case False
    have ih: "chars_loop L cfg units lineIndex charCount out' rest =
           (out' @ spec_chars L cfg units lineIndex (position + 1) rest, charCount, None)" for out'
      using Cons.IH [of charCount "position + 1" out'] False by simp
    show ?thesis using False cp ih
      by (simp add: progressFor_def Let_def)
  qed
qed

lemma lines_loop_spec:
  assumes "Hex L (startColor cfg) \<noteq> None" "Hex L (endColor cfg) \<noteq> None"
    and "gradientDirection cfg = ''horizontal'' \<longrightarrow> charCount = position"
  shows "lines_loop L cfg units lineIndex charCount out lines =
           (out @ spec_lines L cfg units lineIndex position lines, None)"
  using assms(3)
proof (induction lines arbitrary: lineIndex charCount position out)
  case Nil
  then show ?case by simp
next
  case (Cons line rest)
  show ?case
  proof (cases "gradientDirection cfg = ''vertical'' \<and> length line = 0 \<and> units > 1")
    case True
    let ?p = "progressFor lineIndex units (invert cfg) (steps cfg)"
    obtain colorPart where cp:
      "getGradientColor L ?p (startColor cfg) (endColor cfg) (hueDirection cfg) = Inr colorPart"
      "spec_escape L cfg ?p = runes (ESC # ''['') @ runes colorPart"
      using spec_escape_Inr [OF assms(1,2)] by blast
    have nh: "gradientDirection cfg \<noteq> ''horizontal''" using True by simp
    have ih: "lines_loop L cfg units (lineIndex + 1) charCount out' rest =
           (out' @ spec_lines L cfg units (lineIndex + 1) (position + int (length line)) rest, None)"
      for out'
      using Cons.IH [of charCount "position + int (length line)" "lineIndex + 1" out'] nh by simp
    show ?thesis using True cp ih
      by (simp add: progressFor_def Let_def spec_line_def)
  next
    case False
    have cl: "chars_loop L cfg units lineIndex charCount out line =
           (out @ spec_chars L cfg units lineIndex position line,
            (if gradientDirection cfg = ''horizontal'' then charCount + int (length line)
             else charCount), None)"
      using chars_loop_spec [OF assms(1,2) Cons.prems] .
    have ih: "lines_loop L cfg units (lineIndex + 1)
            (if gradientDirection cfg = ''horizontal'' then charCount + int (length line)
             else charCount) out' rest =
           (out' @ spec_lines L cfg units (lineIndex + 1) (position + int (length line)) rest, None)"
      for out'
      using Cons.IH [of "(if gradientDirection cfg = ''horizontal'' then charCount + int (length line)
             else charCount)" "position + int (length line)" "lineIndex + 1" out'] Cons.prems by simp
    have sl: "spec_line L cfg units lineIndex position line =
                spec_chars L cfg units lineIndex position line @ runes [NL]"
      using False by (auto simp add: spec_line_def)
    have "lines_loop L cfg units lineIndex charCount out (line # rest) =
            lines_loop L cfg units (lineIndex + 1)
              (if gradientDirection cfg = ''horizontal'' then charCount + int (length line)
               else charCount)
              (out @ spec_chars L cfg units lineIndex position line @ runes [NL]) rest"
      using cl by (simp only: lines_loop.simps False if_False) (simp add: Let_def)
    then show ?thesis using ih sl by simp
  qed
qed

lemma count_chars_sum: "count_chars lines = (\<Sum>line\<leftarrow>lines. int (length line))"
proof -
  have "foldl (\<lambda>units line. units + int (length line)) a lines
          = a + (\<Sum>line\<leftarrow>lines. int (length line))" for a
    by (induction lines arbitrary: a) simp_all
  then show ?thesis by (simp add: count_chars_def)
qed

lemma reset_each_replicate: "reset_each lines = concat (replicate (length lines) RESET_NL)"
proof -
  have "foldl (\<lambda>out line. out @ RESET_NL) a lines
          = a @ concat (replicate (length lines) RESET_NL)" for a
    by (induction lines arbitrary: a) simp_all
  then show ?thesis by (simp add: reset_each_def)
qed

lemma Run_spec:
  assumes "valid_config L cfg" "args = []" "\<not> read_error input"
  shows "Run L cfg args input =
           \<lparr>stdout =
              (if lines_read input = [] then RESET_NL
               else if gradientDirection cfg = ''horizontal'' \<and> count_chars (lines_read input) = 0
                 then reset_each (lines_read input)
               else spec_lines L cfg
                      (if gradientDirection cfg = ''horizontal'' then count_chars (lines_read input)
                       else int (length (lines_read input)))
                      0 0 (lines_read input) @ RESET_NL),
            failure = None\<rparr>"
proof -
  have h: "Hex L (startColor cfg) \<noteq> None" "Hex L (endColor cfg) \<noteq> None"
    using assms(1) by (simp_all add: valid_config_def)
  have d: "gradientDirection cfg = ''horizontal'' \<or> gradientDirection cfg = ''vertical''"
    and s: "\<not> steps cfg < 0"
    using assms(1) by (auto simp add: valid_config_def)
  have ll: "lines_loop L cfg units 0 0 [] (lines_read input)
              = (spec_lines L cfg units 0 0 (lines_read input), None)" for units
    using lines_loop_spec [OF h, of 0 0 units 0 "[]" "lines_read input"] by simp
  show ?thesis
    unfolding Run_def using h d s assms(2,3) ll by (auto simp add: Let_def)
qed

lemma chars_loop_flag_ok:
  assumes "Hex L (startColor cfg) \<noteq> None" "Hex L (endColor cfg) \<noteq> None"
    and "colorspace cfg = ''rgb'' \<or> colorspace cfg = ''hcl'' \<or> colorspace cfg = ''lab''"
  shows "\<exists>out' charCount'.
           chars_loop_flag L cfg units lineIndex charCount out line = (out', charCount', None)"
proof (induction line arbitrary: charCount out)
  case Nil
  then show ?case by simp
next
  case (Cons char rest)
  let ?p = "applySteps (steps cfg) (applyInvert (invert cfg)
              (if gradientDirection cfg = ''horizontal''
               then rawProgress_flag charCount units else rawProgress_flag lineIndex units))"
  obtain colorPart where
    "getGradientColor_flag L ?p (startColor cfg) (endColor cfg) (colorspace cfg) (hueDirection cfg)
       = Inr colorPart"
    using getGradientColor_flag_Inr [OF assms] by blast
  then show ?case using Cons.IH by (simp add: Let_def)
qed

lemma lines_loop_flag_ok:
  assumes "Hex L (startColor cfg) \<noteq> None" "Hex L (endColor cfg) \<noteq> None"
    and "colorspace cfg = ''rgb'' \<or> colorspace cfg = ''hcl'' \<or> colorspace cfg = ''lab''"
  shows "\<exists>out'. lines_loop_flag L cfg units lineIndex charCount out lines = (out', None)"
proof (induction lines arbitrary: lineIndex charCount out)
  case Nil
  then show ?case by simp
next
  case (Cons line rest)
  show ?case
  proof (cases "gradientDirection cfg = ''vertical'' \<and> length line = 0 \<and> units > 1")
    case True
    let ?p = "applySteps (steps cfg) (applyInvert (invert cfg) (rawProgress_flag lineIndex units))"
    obtain colorPart where
      "getGradientColor_flag L ?p (startColor cfg) (endColor cfg) (colorspace cfg) (hueDirection cfg)
         = Inr colorPart"
      using getGradientColor_flag_Inr [OF assms] by blast
    then show ?thesis using True Cons.IH by (simp add: Let_def)
  next
    case False
    obtain out' charCount' where
      "chars_loop_flag L cfg units lineIndex charCount out line = (out', charCount', None)"
      using chars_loop_flag_ok [OF assms] by blast
    then show ?thesis using Cons.IH
      by (simp only: lines_loop_flag.simps False if_False) (simp add: Let_def)
  qed
qed

lemma main_flag_spec:
  assumes "valid_config_flag L cfg" "args = []" "\<not> read_error input"
  shows "\<exists>out. main_flag L cfg args input =
           \<lparr>stdout =
              (if lines_read input = [] then RESET_NL
               else if gradientDirection cfg = ''horizontal'' \<and> count_chars (lines_read input) = 0
                 then reset_each (lines_read input)
               else out @ RESET_NL),
            failure = None\<rparr>"
proof -
  have h: "Hex L (startColor cfg) \<noteq> None" "Hex L (endColor cfg) \<noteq> None"
    using assms(1) by (simp_all add: valid_config_flag_def)
  have d: "gradientDirection cfg = ''horizontal'' \<or> gradientDirection cfg = ''vertical''"
    and s: "\<not> steps cfg < 0" and v: "\<not> showVersion cfg" "\<not> showHelp cfg"
    using assms(1) by (auto simp add: valid_config_flag_def)
  have c: "colorspace cfg = ''rgb'' \<or> colorspace cfg = ''hcl'' \<or> colorspace cfg = ''lab''"
    using assms(1) by (auto simp add: valid_config_flag_def)
  have u: "\<not> ((colorspace cfg = ''hcl'' \<or> colorspace cfg = ''lab'')
            \<and> (hueDirection cfg \<noteq> ''shortest'' \<and> hueDirection cfg \<noteq> ''clockwise''
                 \<and> hueDirection cfg \<noteq> ''counter-clockwise''))"
    using assms(1) by (auto simp add: valid_config_flag_def)
  have c': "\<not> (colorspace cfg \<noteq> ''rgb'' \<and> colorspace cfg \<noteq> ''hcl'' \<and> colorspace cfg \<noteq> ''lab'')"
    using c by blast
  have d': "\<not> (gradientDirection cfg \<noteq> ''horizontal'' \<and> gradientDirection cfg \<noteq> ''vertical'')"
    using d by blast
  let ?units = "if gradientDirection cfg = ''horizontal'' then count_chars (lines_read input)
                else int (length (lines_read input))"
  obtain out where ll: "lines_loop_flag L cfg ?units 0 0 [] (lines_read input) = (out, None)"
    using lines_loop_flag_ok [OF h c] by blast
  have "main_flag L cfg args input =
           \<lparr>stdout =
              (if lines_read input = [] then RESET_NL
               else if gradientDirection cfg = ''horizontal'' \<and> count_chars (lines_read input) = 0
                 then reset_each (lines_read input)
               else out @ RESET_NL),
            failure = None\<rparr>"
    unfolding main_flag_def
    using h v s assms(2,3) ll d
    by (simp only: c' u if_False) (auto simp add: Let_def)
  then show ?thesis by blast
qed

lemma spec_lines_append:
  "spec_lines L cfg units lineIndex position (xs @ ys) =
     spec_lines L cfg units lineIndex position xs
     @ spec_lines L cfg units (lineIndex + int (length xs)) (position + count_chars xs) ys"
proof (induction xs arbitrary: lineIndex position)
  case Nil
  then show ?case by (simp add: count_chars_sum)
next
  case (Cons x xs)
  show ?case using Cons.IH [of "lineIndex + 1" "position + int (length x)"]
    by (simp add: count_chars_sum add.assoc)
qed

lemma concat_replicate_snoc:
  "concat (replicate (Suc k) xs) = concat (replicate k xs) @ xs"
  by (induction k) simp_all

text \<open>
  Claim C8. In a vertical run with more than one line, a line without characters still
  counts as a gradient unit: the number of units is the number of lines, the progress of
  the empty line comes from its line index, and the lines after it keep their own
  indices. The empty line is written as exactly one color escape sequence (\<open>ESC [\<close> and
  the color part \<open>38;2;r;g;bm\<close> of its progress) followed directly by the line break, between the
  rendering of the lines before it and the rendering of the lines after it.
\<close>

theorem vertical_empty_line:
  assumes "valid_config L cfg" "gradientDirection cfg = ''vertical''" "\<not> read_error input"
    and "lines_read input = before @ [] # after" "before @ after \<noteq> []"
  shows "\<exists>colorPart (r :: 8 word) (g :: 8 word) (b :: 8 word).
           getGradientColor L
             (progressFor (int (length before)) (int (length (lines_read input)))
                (invert cfg) (steps cfg))
             (startColor cfg) (endColor cfg) (hueDirection cfg) = Inr colorPart
         \<and> colorPart = colorPart_of (uint r) (uint g) (uint b)
         \<and> Run L cfg [] input =
             \<lparr>stdout =
                spec_lines L cfg (int (length (lines_read input))) 0 0 before
                @ (runes (ESC # ''['') @ runes colorPart @ runes [NL])
                @ spec_lines L cfg (int (length (lines_read input))) (int (length before) + 1)
                    (count_chars before) after
                @ RESET_NL,
              failure = None\<rparr>"
proof -
  let ?n = "int (length (lines_read input))"
  let ?p = "progressFor (int (length before)) ?n (invert cfg) (steps cfg)"
  have h: "Hex L (startColor cfg) \<noteq> None" "Hex L (endColor cfg) \<noteq> None"
    using assms(1) by (simp_all add: valid_config_def)
  obtain colorPart where cp:
    "getGradientColor L ?p (startColor cfg) (endColor cfg) (hueDirection cfg) = Inr colorPart"
    "spec_escape L cfg ?p = runes (ESC # ''['') @ runes colorPart"
    using spec_escape_Inr [OF h] by blast
  have n: "?n > 1" using assms(4,5) by (cases before; cases after) simp_all
  have nh: "gradientDirection cfg \<noteq> ''horizontal''" using assms(2) by simp
  have line: "spec_line L cfg ?n (int (length before)) (count_chars before) [] =
                runes (ESC # ''['') @ runes colorPart @ runes [NL]"
    using assms(2) n cp(2) by (simp add: spec_line_def)
  have "spec_lines L cfg ?n 0 0 (before @ [] # after) =
          spec_lines L cfg ?n 0 0 before
          @ spec_line L cfg ?n (int (length before)) (count_chars before) []
          @ spec_lines L cfg ?n (int (length before) + 1) (count_chars before) after"
    by (simp add: spec_lines_append)
  then have "spec_lines L cfg ?n 0 0 (lines_read input) =
          spec_lines L cfg ?n 0 0 before
          @ (runes (ESC # ''['') @ runes colorPart @ runes [NL])
          @ spec_lines L cfg ?n (int (length before) + 1) (count_chars before) after"
    using line assms(4) by simp
  moreover have "Run L cfg [] input =
      \<lparr>stdout = spec_lines L cfg ?n 0 0 (lines_read input) @ RESET_NL, failure = None\<rparr>"
    using Run_spec [OF assms(1) refl assms(3)] nh assms(4) by simp
  moreover have "\<exists>(r :: 8 word) (g :: 8 word) (b :: 8 word).
                   colorPart = colorPart_of (uint r) (uint g) (uint b)"
  proof -
    obtain c1 c2 where "Hex L (startColor cfg) = Some c1" "Hex L (endColor cfg) = Some c2"
      using h by auto
    from getGradientColor_Inr [OF this, of ?p "hueDirection cfg"] show ?thesis
      using cp(1) by auto
  qed
  ultimately show ?thesis using cp(1) by auto
qed

theorem vertical_empty_line_witness:
  "valid_config ref_colorful (default_config\<lparr>gradientDirection := ''vertical''\<rparr>)
   \<and> gradientDirection (default_config\<lparr>gradientDirection := ''vertical''\<rparr>) = ''vertical''
   \<and> \<not> read_error \<lparr>lines_read = [[65], [], [66]], read_error = False\<rparr>
   \<and> lines_read \<lparr>lines_read = [[65], [], [66]], read_error = False\<rparr> = [[65]] @ [] # [[66]]
   \<and> [[65]] @ [[66]] \<noteq> ([] :: rune list list)
   \<and> getGradientColor ref_colorful (progressFor 1 3 False 0) ''#FF00FF'' ''#00FFFF'' ''shortest''
       = Inr ''38;2;255;128;255m''
   \<and> stdout (Run ref_colorful (default_config\<lparr>gradientDirection := ''vertical''\<rparr>) []
         \<lparr>lines_read = [[65], [], [66]], read_error = False\<rparr>)
       = runes (ESC # ''[38;2;255;0;255mA'' @ [NL])
         @ runes (ESC # ''[38;2;255;128;255m'' @ [NL])
         @ runes (ESC # ''[38;2;0;255;255mB'' @ [NL])
         @ RESET_NL"
proof -
  let ?cfg = "default_config\<lparr>gradientDirection := ''vertical''\<rparr>"
  let ?input = "\<lparr>lines_read = [[65], [], [66]], read_error = False\<rparr>"
  have a: "valid_config ref_colorful ?cfg" by code_simp
  have b: "gradientDirection ?cfg = ''vertical''" by simp
  have c: "\<not> read_error ?input" by simp
  have d: "lines_read ?input = [[65]] @ [] # [[66]]" by simp
  have e: "[[65]] @ [[66]] \<noteq> ([] :: rune list list)" by simp
  have f: "getGradientColor ref_colorful (progressFor 1 3 False 0) ''#FF00FF'' ''#00FFFF'' ''shortest''
       = Inr ''38;2;255;128;255m''" by code_simp
  have g: "spec_lines ref_colorful ?cfg 3 0 0 [[65]] = runes (ESC # ''[38;2;255;0;255mA'' @ [NL])"
    by code_simp
  have h: "spec_lines ref_colorful ?cfg 3 2 (count_chars [[65]]) [[66]]
             = runes (ESC # ''[38;2;0;255;255mB'' @ [NL])"
    by code_simp
  obtain colorPart and r g b :: "8 word" where t:
    "getGradientColor ref_colorful
       (progressFor (int (length [[65::nat]])) (int (length (lines_read ?input)))
          (invert ?cfg) (steps ?cfg))
       (startColor ?cfg) (endColor ?cfg) (hueDirection ?cfg) = Inr colorPart"
    "Run ref_colorful ?cfg [] ?input =
       \<lparr>stdout =
          spec_lines ref_colorful ?cfg (int (length (lines_read ?input))) 0 0 [[65]]
          @ (runes (ESC # ''['') @ runes colorPart @ runes [NL])
          @ spec_lines ref_colorful ?cfg (int (length (lines_read ?input)))
              (int (length [[65::nat]]) + 1) (count_chars [[65]]) [[66]]
          @ RESET_NL,
        failure = None\<rparr>"
    "colorPart = colorPart_of (uint r) (uint g) (uint b)"
    using vertical_empty_line [OF a b c d e] by blast
  have cp: "colorPart = ''38;2;255;128;255m''"
    using t(1) f by (simp add: default_config_def)
  have "stdout (Run ref_colorful ?cfg [] ?input)
       = runes (ESC # ''[38;2;255;0;255mA'' @ [NL])
         @ runes (ESC # ''[38;2;255;128;255m'' @ [NL])
         @ runes (ESC # ''[38;2;0;255;255mB'' @ [NL])
         @ RESET_NL"
    unfolding t(2) cp using g h by (simp add: runes_def)
  then show ?thesis using a b c d e f by blast
qed


text \<open>
  Claim C9. For every input that is read without error, by a valid configuration, the
  run returns normally and its output ends with the reset sequence \<open>ESC [ 0 m\<close> followed
  by a newline; on empty input the output is exactly that. When the input has a line and
  is not a horizontal input without characters, the output of the cobra version is the
  rendering of the lines followed by this one reset. The same holds for the end of the
  output of the flag version.
\<close>

theorem output_ends_with_reset:
  "(valid_config L cfg \<and> \<not> read_error input \<longrightarrow>
      failure (Run L cfg [] input) = None
    \<and> (\<exists>body. stdout (Run L cfg [] input) = body @ RESET_NL)
    \<and> (lines_read input = [] \<longrightarrow> stdout (Run L cfg [] input) = RESET_NL)
    \<and> (lines_read input \<noteq> []
         \<and> \<not> (gradientDirection cfg = ''horizontal'' \<and> count_chars (lines_read input) = 0) \<longrightarrow>
        stdout (Run L cfg [] input) =
          spec_lines L cfg
            (if gradientDirection cfg = ''horizontal'' then count_chars (lines_read input)
             else int (length (lines_read input)))
            0 0 (lines_read input) @ RESET_NL))
 \<and> (valid_config_flag L cfg' \<and> \<not> read_error input \<longrightarrow>
      failure (main_flag L cfg' [] input) = None
    \<and> (\<exists>body. stdout (main_flag L cfg' [] input) = body @ RESET_NL)
    \<and> (lines_read input = [] \<longrightarrow> stdout (main_flag L cfg' [] input) = RESET_NL))
 \<and> RESET_NL = [27, 91, 48, 109, 10]"
proof -
  have re: "\<exists>body. reset_each lines = body @ RESET_NL" if ne: "lines \<noteq> []" for lines
  proof -
    obtain k where "length lines = Suc k" using ne by (cases lines) auto
    then have "reset_each lines = concat (replicate k RESET_NL) @ RESET_NL"
      by (simp only: reset_each_replicate concat_replicate_snoc)
    then show ?thesis by blast
  qed
  have A: "failure (Run L cfg [] input) = None
    \<and> (\<exists>body. stdout (Run L cfg [] input) = body @ RESET_NL)
    \<and> (lines_read input = [] \<longrightarrow> stdout (Run L cfg [] input) = RESET_NL)
    \<and> (lines_read input \<noteq> []
         \<and> \<not> (gradientDirection cfg = ''horizontal'' \<and> count_chars (lines_read input) = 0) \<longrightarrow>
        stdout (Run L cfg [] input) =
          spec_lines L cfg
            (if gradientDirection cfg = ''horizontal'' then count_chars (lines_read input)
             else int (length (lines_read input)))
            0 0 (lines_read input) @ RESET_NL)"
    if v: "valid_config L cfg \<and> \<not> read_error input"
  proof -
    note r = Run_spec [of L cfg "[]" input, OF _ refl]
    have r': "Run L cfg [] input =
           \<lparr>stdout =
              (if lines_read input = [] then RESET_NL
               else if gradientDirection cfg = ''horizontal'' \<and> count_chars (lines_read input) = 0
                 then reset_each (lines_read input)
               else spec_lines L cfg
                      (if gradientDirection cfg = ''horizontal'' then count_chars (lines_read input)
                       else int (length (lines_read input)))
                      0 0 (lines_read input) @ RESET_NL),
            failure = None\<rparr>" using r v by blast
    have "\<exists>body. stdout (Run L cfg [] input) = body @ RESET_NL"
    proof (cases "lines_read input = []")
      case True
      then have "stdout (Run L cfg [] input) = [] @ RESET_NL" unfolding r' by simp
      then show ?thesis by blast
    next
      case False
      then show ?thesis unfolding r' using re [OF False] by auto
    qed
    then show ?thesis unfolding r' by simp
  qed
  have B: "failure (main_flag L cfg' [] input) = None
    \<and> (\<exists>body. stdout (main_flag L cfg' [] input) = body @ RESET_NL)
    \<and> (lines_read input = [] \<longrightarrow> stdout (main_flag L cfg' [] input) = RESET_NL)"
    if v: "valid_config_flag L cfg' \<and> \<not> read_error input"
  proof -
    obtain out where r': "main_flag L cfg' [] input =
           \<lparr>stdout =
              (if lines_read input = [] then RESET_NL
               else if gradientDirection cfg' = ''horizontal'' \<and> count_chars (lines_read input) = 0
                 then reset_each (lines_read input)
               else out @ RESET_NL),
            failure = None\<rparr>"
      using main_flag_spec [of L cfg' "[]" input] v by blast
    have "\<exists>body. stdout (main_flag L cfg' [] input) = body @ RESET_NL"
    proof (cases "lines_read input = []")
      case True
      then have "stdout (main_flag L cfg' [] input) = [] @ RESET_NL" unfolding r' by simp
      then show ?thesis by blast
    next
      case False
      then show ?thesis unfolding r' using re [OF False] by auto
    qed
    then show ?thesis unfolding r' by simp
  qed
  have C: "RESET_NL = [27, 91, 48, 109, 10]"
    by (simp add: RESET_NL_def runes_def ESC_def NL_def)
  show ?thesis using A B C by blast
qed

theorem output_ends_with_reset_witness:
  "valid_config ref_colorful default_config
   \<and> valid_config_flag ref_colorful default_config_flag
   \<and> \<not> read_error \<lparr>lines_read = [], read_error = False\<rparr>
   \<and> lines_read \<lparr>lines_read = [], read_error = False\<rparr> = []
   \<and> failure (Run ref_colorful default_config [] \<lparr>lines_read = [], read_error = False\<rparr>) = None
   \<and> stdout (Run ref_colorful default_config [] \<lparr>lines_read = [], read_error = False\<rparr>)
       = RESET_NL
   \<and> stdout (main_flag ref_colorful default_config_flag [] \<lparr>lines_read = [], read_error = False\<rparr>)
       = RESET_NL
   \<and> \<not> read_error \<lparr>lines_read = [[65]], read_error = False\<rparr>
   \<and> lines_read \<lparr>lines_read = [[65]], read_error = False\<rparr> \<noteq> []
   \<and> \<not> (gradientDirection default_config = ''horizontal''
          \<and> count_chars (lines_read \<lparr>lines_read = [[65]], read_error = False\<rparr>) = 0)
   \<and> (\<exists>body. stdout (Run ref_colorful default_config []
                  \<lparr>lines_read = [[65]], read_error = False\<rparr>) = body @ RESET_NL)
   \<and> (\<exists>body. stdout (main_flag ref_colorful default_config_flag []
                  \<lparr>lines_read = [[65]], read_error = False\<rparr>) = body @ RESET_NL)"
proof -
  have a: "valid_config ref_colorful default_config" by code_simp
  have b: "valid_config_flag ref_colorful default_config_flag" by code_simp
  have c: "count_chars [[65]] \<noteq> 0" by code_simp
  note t1 = output_ends_with_reset [where L = ref_colorful and cfg = default_config
      and cfg' = default_config_flag and input = "\<lparr>lines_read = [], read_error = False\<rparr>"]
  note t2 = output_ends_with_reset [where L = ref_colorful and cfg = default_config
      and cfg' = default_config_flag and input = "\<lparr>lines_read = [[65]], read_error = False\<rparr>"]
  show ?thesis using a b c t1 t2 by simp
qed


text \<open>
  Claim C10. In a horizontal run whose input has at least one line and no character at
  all, the output is one reset sequence followed by a newline for each input line and
  nothing else: no color escape sequence and no further reset at the end. This holds
  for the cobra version and for the flag version.
\<close>

theorem horizontal_without_characters:
  "(valid_config L cfg \<and> \<not> read_error input \<and> gradientDirection cfg = ''horizontal''
      \<and> lines_read input \<noteq> [] \<and> (\<forall>line \<in> set (lines_read input). line = []) \<longrightarrow>
      Run L cfg [] input =
        \<lparr>stdout = concat (replicate (length (lines_read input)) RESET_NL), failure = None\<rparr>)
 \<and> (valid_config_flag L cfg' \<and> \<not> read_error input \<and> gradientDirection cfg' = ''horizontal''
      \<and> lines_read input \<noteq> [] \<and> (\<forall>line \<in> set (lines_read input). line = []) \<longrightarrow>
      main_flag L cfg' [] input =
        \<lparr>stdout = concat (replicate (length (lines_read input)) RESET_NL), failure = None\<rparr>)
 \<and> RESET_NL = runes (ESC # ''[0m'' @ [NL])"
proof -
  have z: "count_chars lines = 0" if "\<forall>line \<in> set lines. line = []" for lines
    using that unfolding count_chars_sum by (induction lines) simp_all
  have A: "Run L cfg [] input =
        \<lparr>stdout = concat (replicate (length (lines_read input)) RESET_NL), failure = None\<rparr>"
    if "valid_config L cfg \<and> \<not> read_error input \<and> gradientDirection cfg = ''horizontal''
      \<and> lines_read input \<noteq> [] \<and> (\<forall>line \<in> set (lines_read input). line = [])"
    using Run_spec [of L cfg "[]" input] that z [of "lines_read input"]
    by (simp add: reset_each_replicate)
  have B: "main_flag L cfg' [] input =
        \<lparr>stdout = concat (replicate (length (lines_read input)) RESET_NL), failure = None\<rparr>"
    if "valid_config_flag L cfg' \<and> \<not> read_error input \<and> gradientDirection cfg' = ''horizontal''
      \<and> lines_read input \<noteq> [] \<and> (\<forall>line \<in> set (lines_read input). line = [])"
    using main_flag_spec [of L cfg' "[]" input] that z [of "lines_read input"]
    by (auto simp add: reset_each_replicate)
  show ?thesis using A B by (simp add: RESET_NL_def)
qed

theorem horizontal_without_characters_witness:
  "valid_config ref_colorful default_config
   \<and> valid_config_flag ref_colorful default_config_flag
   \<and> \<not> read_error \<lparr>lines_read = [[], []], read_error = False\<rparr>
   \<and> gradientDirection default_config = ''horizontal''
   \<and> gradientDirection default_config_flag = ''horizontal''
   \<and> lines_read \<lparr>lines_read = [[], []], read_error = False\<rparr> \<noteq> []
   \<and> set (lines_read \<lparr>lines_read = [[], []], read_error = False\<rparr>) = {[]}
   \<and> Run ref_colorful default_config [] \<lparr>lines_read = [[], []], read_error = False\<rparr>
       = \<lparr>stdout = RESET_NL @ RESET_NL, failure = None\<rparr>
   \<and> main_flag ref_colorful default_config_flag [] \<lparr>lines_read = [[], []], read_error = False\<rparr>
       = \<lparr>stdout = RESET_NL @ RESET_NL, failure = None\<rparr>"
proof -
  have a: "valid_config ref_colorful default_config" by code_simp
  have b: "valid_config_flag ref_colorful default_config_flag" by code_simp
  have c: "gradientDirection default_config = ''horizontal''"
    "gradientDirection default_config_flag = ''horizontal''"
    by (simp_all add: default_config_def default_config_flag_def)
  note t = horizontal_without_characters [where L = ref_colorful and cfg = default_config
      and cfg' = default_config_flag and input = "\<lparr>lines_read = [[], []], read_error = False\<rparr>"]
  show ?thesis using a b c t by (simp add: numeral_2_eq_2)
qed


subsection \<open>Validation\<close>

lemma deltaH_unknown:
  assumes "dir \<notin> {''clockwise'', ''cw'', ''counter-clockwise'', ''counterclockwise'', ''ccw''}"
  shows "deltaH dir h1 h2 = deltaH ''shortest'' h1 h2"
proof -
  have "''shortest'' \<notin> {''clockwise'', ''cw'', ''counter-clockwise'', ''counterclockwise'', ''ccw''}"
    by simp
  then show ?thesis using deltaH_shortest [OF assms] deltaH_shortest [of "''shortest''"] by simp
qed

lemma getGradientColor_unknown:
  assumes "dir \<notin> {''clockwise'', ''cw'', ''counter-clockwise'', ''counterclockwise'', ''ccw''}"
  shows "getGradientColor L progress startHex endHex dir
           = getGradientColor L progress startHex endHex ''shortest''"
  unfolding getGradientColor_def blendHCLWithDirection_def deltaH_unknown [OF assms] ..

lemma chars_loop_unknown:
  assumes "dir \<notin> {''clockwise'', ''cw'', ''counter-clockwise'', ''counterclockwise'', ''ccw''}"
  shows "chars_loop L (cfg\<lparr>hueDirection := dir\<rparr>) units lineIndex charCount out line
           = chars_loop L (cfg\<lparr>hueDirection := ''shortest''\<rparr>) units lineIndex charCount out line"
proof (induction line arbitrary: charCount out)
  case Nil
  then show ?case by simp
next
  case (Cons char rest)
  then show ?case
    by (simp add: Let_def getGradientColor_unknown [OF assms] split: sum.splits)
qed

lemma lines_loop_unknown:
  assumes "dir \<notin> {''clockwise'', ''cw'', ''counter-clockwise'', ''counterclockwise'', ''ccw''}"
  shows "lines_loop L (cfg\<lparr>hueDirection := dir\<rparr>) units lineIndex charCount out lines
           = lines_loop L (cfg\<lparr>hueDirection := ''shortest''\<rparr>) units lineIndex charCount out lines"
proof (induction lines arbitrary: lineIndex charCount out)
  case Nil
  then show ?case by simp
next
  case (Cons line rest)
  then show ?case
    by (simp add: Let_def getGradientColor_unknown [OF assms] chars_loop_unknown [OF assms]
          split: sum.splits prod.splits option.splits)
qed

lemma Run_unknown:
  assumes "dir \<notin> {''clockwise'', ''cw'', ''counter-clockwise'', ''counterclockwise'', ''ccw''}"
  shows "Run L (cfg\<lparr>hueDirection := dir\<rparr>) args input
           = Run L (cfg\<lparr>hueDirection := ''shortest''\<rparr>) args input"
  unfolding Run_def by (simp add: Let_def lines_loop_unknown [OF assms])

lemma getGradientColor_flag_hue:
  "getGradientColor_flag L progress startHex endHex space dir
     = getGradientColor_flag L progress startHex endHex space dir'"
  by (simp add: getGradientColor_flag_def)

lemma chars_loop_flag_hue:
  "chars_loop_flag L (cfg\<lparr>hueDirection := dir\<rparr>) units lineIndex charCount out line
     = chars_loop_flag L cfg units lineIndex charCount out line"
proof (induction line arbitrary: charCount out)
  case Nil
  then show ?case by simp
next
  case (Cons char rest)
  then show ?case
    by (simp add: Let_def getGradientColor_flag_hue [of _ _ _ _ _ dir "hueDirection cfg"]
          split: sum.splits)
qed

lemma lines_loop_flag_hue:
  "lines_loop_flag L (cfg\<lparr>hueDirection := dir\<rparr>) units lineIndex charCount out lines
     = lines_loop_flag L cfg units lineIndex charCount out lines"
proof (induction lines arbitrary: lineIndex charCount out)
  case Nil
  then show ?case by simp
next
  case (Cons line rest)
  then show ?case
    by (simp add: Let_def getGradientColor_flag_hue [of _ _ _ _ _ dir "hueDirection cfg"]
          chars_loop_flag_hue split: sum.splits prod.splits option.splits)
qed

lemma main_flag_rgb_hue:
  assumes "colorspace cfg = ''rgb''"
  shows "main_flag L (cfg\<lparr>hueDirection := dir\<rparr>) args input = main_flag L cfg args input"
  unfolding main_flag_def using assms by (simp add: Let_def lines_loop_flag_hue)

lemma Run_rejects:
  assumes "Hex L (startColor cfg) = None \<or> Hex L (endColor cfg) = None
      \<or> (gradientDirection cfg \<noteq> ''horizontal'' \<and> gradientDirection cfg \<noteq> ''vertical'')
      \<or> steps cfg < 0 \<or> args \<noteq> []"
  shows "stdout (Run L cfg args input) = [] \<and> exit_code (Run L cfg args input) = 1"
  using assms unfolding Run_def by (auto simp add: exit_with_def exit_code_def)

lemma main_flag_rejects:
  assumes "\<not> showVersion cfg" "\<not> showHelp cfg"
    and "Hex L (startColor cfg) = None \<or> Hex L (endColor cfg) = None
      \<or> (gradientDirection cfg \<noteq> ''horizontal'' \<and> gradientDirection cfg \<noteq> ''vertical'')
      \<or> (colorspace cfg \<noteq> ''rgb'' \<and> colorspace cfg \<noteq> ''hcl'' \<and> colorspace cfg \<noteq> ''lab'')
      \<or> ((colorspace cfg = ''hcl'' \<or> colorspace cfg = ''lab'')
          \<and> hueDirection cfg \<noteq> ''shortest'' \<and> hueDirection cfg \<noteq> ''clockwise''
          \<and> hueDirection cfg \<noteq> ''counter-clockwise'')
      \<or> steps cfg < 0 \<or> args \<noteq> []"
  shows "stdout (main_flag L cfg args input) = [] \<and> exit_code (main_flag L cfg args input) = 1"
  using assms unfolding main_flag_def by (auto simp add: exit_with_def exit_code_def)

text \<open>
  Claim C7, as the code has it. A malformed color, an invalid gradient direction (and, in
  the flag version, an invalid colorspace), negative steps and unexpected positional
  arguments end the run with exit code 1 before any output. A hue direction that is not
  recognized does so only in the flag version and only when the colorspace is hcl or lab;
  with the colorspace rgb the flag version runs as with any other hue direction. The
  cobra version never validates the hue direction: a value that its switch does not know
  is interpolated as \<open>shortest\<close>, and the run has the output and the exit code of the
  run with \<open>shortest\<close>.
\<close>

theorem hue_direction_validation:
  "(Hex L (startColor cfg) = None \<or> Hex L (endColor cfg) = None
      \<or> (gradientDirection cfg \<noteq> ''horizontal'' \<and> gradientDirection cfg \<noteq> ''vertical'')
      \<or> steps cfg < 0 \<or> args \<noteq> [] \<longrightarrow>
      stdout (Run L cfg args input) = [] \<and> exit_code (Run L cfg args input) = 1)
 \<and> (dir \<notin> {''clockwise'', ''cw'', ''counter-clockwise'', ''counterclockwise'', ''ccw''} \<longrightarrow>
      Run L (cfg\<lparr>hueDirection := dir\<rparr>) args input
        = Run L (cfg\<lparr>hueDirection := ''shortest''\<rparr>) args input)
 \<and> (\<not> showVersion cfg' \<and> \<not> showHelp cfg'
      \<and> (Hex L (startColor cfg') = None \<or> Hex L (endColor cfg') = None
          \<or> (gradientDirection cfg' \<noteq> ''horizontal'' \<and> gradientDirection cfg' \<noteq> ''vertical'')
          \<or> (colorspace cfg' \<noteq> ''rgb'' \<and> colorspace cfg' \<noteq> ''hcl'' \<and> colorspace cfg' \<noteq> ''lab'')
          \<or> ((colorspace cfg' = ''hcl'' \<or> colorspace cfg' = ''lab'')
              \<and> hueDirection cfg' \<noteq> ''shortest'' \<and> hueDirection cfg' \<noteq> ''clockwise''
              \<and> hueDirection cfg' \<noteq> ''counter-clockwise'')
          \<or> steps cfg' < 0 \<or> args \<noteq> []) \<longrightarrow>
      stdout (main_flag L cfg' args input) = [] \<and> exit_code (main_flag L cfg' args input) = 1)
 \<and> (colorspace cfg' = ''rgb'' \<longrightarrow>
      main_flag L (cfg'\<lparr>hueDirection := dir\<rparr>) args input = main_flag L cfg' args input)"
  using Run_rejects [of L cfg args input] Run_unknown [of dir L cfg args input]
    main_flag_rejects [of cfg' L args input] main_flag_rgb_hue [of cfg' L dir args input]
  by blast

theorem hue_direction_validation_witness:
  "steps (default_config\<lparr>steps := - 1\<rparr>) < 0
   \<and> ''sideways'' \<notin> {''clockwise'', ''cw'', ''counter-clockwise'', ''counterclockwise'', ''ccw''}
   \<and> \<not> showVersion (default_config_flag\<lparr>colorspace := ''hcl'', hueDirection := ''sideways''\<rparr>)
   \<and> \<not> showHelp (default_config_flag\<lparr>colorspace := ''hcl'', hueDirection := ''sideways''\<rparr>)
   \<and> colorspace (default_config_flag\<lparr>colorspace := ''hcl'', hueDirection := ''sideways''\<rparr>) = ''hcl''
   \<and> hueDirection (default_config_flag\<lparr>colorspace := ''hcl'', hueDirection := ''sideways''\<rparr>) \<noteq> ''shortest''
   \<and> hueDirection (default_config_flag\<lparr>colorspace := ''hcl'', hueDirection := ''sideways''\<rparr>) \<noteq> ''clockwise''
   \<and> hueDirection (default_config_flag\<lparr>colorspace := ''hcl'', hueDirection := ''sideways''\<rparr>) \<noteq> ''counter-clockwise''
   \<and> colorspace default_config_flag = ''rgb''
   \<and> exit_code (Run ref_colorful (default_config\<lparr>steps := - 1\<rparr>) []
         \<lparr>lines_read = [[65]], read_error = False\<rparr>) = 1
   \<and> Run ref_colorful (default_config\<lparr>hueDirection := ''sideways''\<rparr>) []
         \<lparr>lines_read = [[65]], read_error = False\<rparr>
       = Run ref_colorful (default_config\<lparr>hueDirection := ''shortest''\<rparr>) []
           \<lparr>lines_read = [[65]], read_error = False\<rparr>
   \<and> stdout (main_flag ref_colorful
         (default_config_flag\<lparr>colorspace := ''hcl'', hueDirection := ''sideways''\<rparr>) []
         \<lparr>lines_read = [[65]], read_error = False\<rparr>) = []
   \<and> exit_code (main_flag ref_colorful
         (default_config_flag\<lparr>colorspace := ''hcl'', hueDirection := ''sideways''\<rparr>) []
         \<lparr>lines_read = [[65]], read_error = False\<rparr>) = 1
   \<and> main_flag ref_colorful (default_config_flag\<lparr>hueDirection := ''sideways''\<rparr>) []
         \<lparr>lines_read = [[65]], read_error = False\<rparr>
       = main_flag ref_colorful default_config_flag []
           \<lparr>lines_read = [[65]], read_error = False\<rparr>"
proof -
  have a: "steps (default_config\<lparr>steps := - 1\<rparr>) < 0" by simp
  have b: "''sideways'' \<notin> {''clockwise'', ''cw'', ''counter-clockwise'', ''counterclockwise'', ''ccw''}"
    by simp
  have c: "\<not> showVersion (default_config_flag\<lparr>colorspace := ''hcl'', hueDirection := ''sideways''\<rparr>)"
    "\<not> showHelp (default_config_flag\<lparr>colorspace := ''hcl'', hueDirection := ''sideways''\<rparr>)"
    "colorspace default_config_flag = ''rgb''"
    by (simp_all add: default_config_flag_def)
  have d: "colorspace (default_config_flag\<lparr>colorspace := ''hcl'', hueDirection := ''sideways''\<rparr>) = ''hcl''"
    "hueDirection (default_config_flag\<lparr>colorspace := ''hcl'', hueDirection := ''sideways''\<rparr>) \<noteq> ''shortest''"
    "hueDirection (default_config_flag\<lparr>colorspace := ''hcl'', hueDirection := ''sideways''\<rparr>) \<noteq> ''clockwise''"
    "hueDirection (default_config_flag\<lparr>colorspace := ''hcl'', hueDirection := ''sideways''\<rparr>) \<noteq> ''counter-clockwise''"
    by simp_all
  note t1 = hue_direction_validation [where L = ref_colorful
      and cfg = "default_config\<lparr>steps := - 1\<rparr>" and args = "[]"
      and input = "\<lparr>lines_read = [[65]], read_error = False\<rparr>" and dir = "''sideways''"
      and cfg' = "default_config_flag\<lparr>colorspace := ''hcl'', hueDirection := ''sideways''\<rparr>"]
  note t2 = hue_direction_validation [where L = ref_colorful
      and cfg = default_config and args = "[]"
      and input = "\<lparr>lines_read = [[65]], read_error = False\<rparr>" and dir = "''sideways''"
      and cfg' = default_config_flag]
  show ?thesis using a b c d t1 t2 by simp
qed

text \<open>The claim as written has every run with an unrecognized hue direction end with
  exit code 1 before any output. With the hue direction \<open>sideways\<close> and the line \<open>A\<close>
  on standard input, both versions color the line and return normally.\<close>

theorem unknown_hue_direction_accepted:
  "''sideways'' \<notin> {''shortest'', ''clockwise'', ''counter-clockwise''}
   \<and> Run ref_colorful (default_config\<lparr>hueDirection := ''sideways''\<rparr>) []
         \<lparr>lines_read = [[65]], read_error = False\<rparr>
       = \<lparr>stdout = runes (ESC # ''[38;2;255;0;255mA'' @ [NL]) @ RESET_NL, failure = None\<rparr>
   \<and> exit_code (Run ref_colorful (default_config\<lparr>hueDirection := ''sideways''\<rparr>) []
         \<lparr>lines_read = [[65]], read_error = False\<rparr>) \<noteq> 1
   \<and> stdout (main_flag ref_colorful (default_config_flag\<lparr>hueDirection := ''sideways''\<rparr>) []
         \<lparr>lines_read = [[65]], read_error = False\<rparr>) \<noteq> []
   \<and> exit_code (main_flag ref_colorful (default_config_flag\<lparr>hueDirection := ''sideways''\<rparr>) []
         \<lparr>lines_read = [[65]], read_error = False\<rparr>) \<noteq> 1"
  by code_simp


end
